theory Spec2Isabelle
  imports Main "HOL-Library.Word"
begin

section \<open>Split-unit resolution (libdw/libdw\_find\_split\_unit.c)\<close>

subsection \<open>Data model\<close>

text \<open>
  The field \<open>cu->split\<close> of a \<open>Dwarf_CU\<close> holds one of three things: the
  pointer value \<open>(Dwarf_CU *) -1\<close> (nothing tried yet), \<open>NULL\<close> (tried, nothing
  found) or a pointer to the counterpart unit. Units live in a store and are named by
  their index in it.
\<close>

datatype link = Unresolved | NoneFound | Linked nat

text \<open>
  A unit: its type, its 8-byte id, the link, the \<open>debugdir\<close> of its owning
  \<open>Dwarf\<close>, and the attributes of its unit DIE that the resolver reads. An attribute
  is present or not (\<open>dwarf_attr\<close>), and a present one has a string value or not
  (\<open>dwarf_formstring\<close>).
\<close>

record dwarf_cu =
  unit_type :: "8 word"
  unit_id8 :: "64 word"
  split :: link
  debugdir :: "string option"
  attrs :: "(nat \<times> string option) list"

definition DW_UT_skeleton :: "8 word" where "DW_UT_skeleton = 0x04"
definition DW_UT_split_compile :: "8 word" where "DW_UT_split_compile = 0x05"
definition DW_UT_split_type :: "8 word" where "DW_UT_split_type = 0x06"

definition DW_AT_comp_dir :: nat where "DW_AT_comp_dir = 0x1b"
definition DW_AT_dwo_name :: nat where "DW_AT_dwo_name = 0x76"
definition DW_AT_GNU_dwo_name :: nat where "DW_AT_GNU_dwo_name = 0x2130"

text \<open>
  An opened container (\<open>Dwarf\<close>): its units in header order, the descriptor its
  \<open>Elf\<close> handle still reads from (\<open>None\<close> after \<open>ELF_C_FDDONE\<close>), and how many
  times \<open>dwarf_end\<close> has been called on it. \<open>dwarf_end\<close> frees the container
  with its units and its \<open>Elf\<close> handle, so a container is live while the count is 0.
\<close>

record dwarf =
  units :: "nat list"
  fildes :: "nat option"
  ended :: nat

text \<open>What the resolver does to the outside, in order.\<close>

datatype event =
    Open string "nat option"
  | DwarfBegin nat "nat option"
  | GetUnits nat "nat option"
  | FdDone nat
  | DwarfEnd nat
  | Close nat

text \<open>
  Passing a freed container to libdw is undefined in C. The model ends such a run with
  a fault that names the container and keeps the trace up to that point and the
  descriptors that are open at that point.
\<close>

datatype fault = UseAfterFree nat "event list" "nat list"

record world =
  cus :: "dwarf_cu list"
  dwarfs :: "dwarf list"
  open_fds :: "nat list"
  trace :: "event list"

text \<open>
  The functions the resolver calls and whose code is elsewhere in libdw or in the C
  library are parameters: \<open>filepath\<close> is \<open>__libdw_filepath\<close> (debugdir, directory,
  file name, each possibly \<open>NULL\<close>), \<open>can_open\<close> says whether \<open>open (path,
  O_RDONLY)\<close> succeeds, and \<open>parse\<close> gives what \<open>dwarf_begin\<close> and the following
  \<open>dwarf_get_units\<close> calls find in the file: nothing (no DWARF container), or the
  type and id of each unit whose header can be read, in header order.
\<close>

record env =
  filepath :: "string option \<Rightarrow> string option \<Rightarrow> string option \<Rightarrow> string option"
  can_open :: "string \<Rightarrow> bool"
  parse :: "string \<Rightarrow> (8 word \<times> 64 word) list option"

subsection \<open>The operations of the environment\<close>

definition log :: "event \<Rightarrow> world \<Rightarrow> world" where
  "log e w = w\<lparr>trace := trace w @ [e]\<rparr>"

definition set_split :: "nat \<Rightarrow> link \<Rightarrow> world \<Rightarrow> world" where
  "set_split r l w = w\<lparr>cus := (cus w)[r := (cus w ! r)\<lparr>split := l\<rparr>]\<rparr>"

definition dwarf_attr :: "dwarf_cu \<Rightarrow> nat \<Rightarrow> string option option" where
  "dwarf_attr cu name = map_of (attrs cu) name"

definition dwarf_formstring :: "string option option \<Rightarrow> string option" where
  "dwarf_formstring a = (case a of None \<Rightarrow> None | Some s \<Rightarrow> s)"

text \<open>\<open>open\<close> returns a descriptor that is not open yet, or fails.\<close>

definition fresh_fd :: "nat list \<Rightarrow> nat" where
  "fresh_fd fds = Suc (fold max fds 0)"

definition sys_open :: "env \<Rightarrow> string \<Rightarrow> world \<Rightarrow> nat option \<times> world" where
  "sys_open E path w =
     (if can_open E path
      then (let fd = fresh_fd (open_fds w)
            in (Some fd, log (Open path (Some fd)) (w\<lparr>open_fds := fd # open_fds w\<rparr>)))
      else (None, log (Open path None) w))"

definition sys_close :: "nat \<Rightarrow> world \<Rightarrow> world" where
  "sys_close fd w = log (Close fd) (w\<lparr>open_fds := removeAll fd (open_fds w)\<rparr>)"

text \<open>
  \<open>dwarf_begin\<close>: on success a new container whose units are new entries of the unit
  store, each with its link still \<open>Unresolved\<close>. (libdw creates each \<open>Dwarf_CU\<close>
  when \<open>dwarf_get_units\<close> first reaches it; creating them at once gives the same
  units in the same order.)
\<close>

definition new_unit :: "8 word \<times> 64 word \<Rightarrow> dwarf_cu" where
  "new_unit h = \<lparr>unit_type = fst h, unit_id8 = snd h, split = Unresolved,
                 debugdir = None, attrs = []\<rparr>"

definition dwarf_begin :: "env \<Rightarrow> string \<Rightarrow> nat \<Rightarrow> world \<Rightarrow> nat option \<times> world" where
  "dwarf_begin E path fd w =
     (case parse E path of
        None \<Rightarrow> (None, log (DwarfBegin fd None) w)
      | Some hs \<Rightarrow>
          (let n = length (cus w); d = length (dwarfs w)
           in (Some d,
               log (DwarfBegin fd (Some d))
                 (w\<lparr>cus := cus w @ map new_unit hs,
                    dwarfs := dwarfs w @ [\<lparr>units = [n ..< n + length hs],
                                           fildes = Some fd, ended = 0\<rparr>]\<rparr>))))"

definition elf_cntl_FDDONE :: "nat \<Rightarrow> world \<Rightarrow> world" where
  "elf_cntl_FDDONE d w =
     log (FdDone d) (w\<lparr>dwarfs := (dwarfs w)[d := (dwarfs w ! d)\<lparr>fildes := None\<rparr>]\<rparr>)"

definition dwarf_end :: "nat \<Rightarrow> world \<Rightarrow> world" where
  "dwarf_end d w =
     log (DwarfEnd d)
       (w\<lparr>dwarfs := (dwarfs w)[d := (dwarfs w ! d)\<lparr>ended := Suc (ended (dwarfs w ! d))\<rparr>]\<rparr>)"

subsection \<open>\_\_libdw\_find\_split\_unit\<close>

text \<open>
  The \<open>while\<close> loop over \<open>dwarf_get_units\<close> (lines 81 to 101). \<open>us\<close> is what is
  left of the container's units; the empty list is the call that returns non-zero and
  ends the loop. Every turn starts with a call of \<open>dwarf_get_units\<close> on the
  container, which is a fault if the container has been freed. On a match both links are
  set, the descriptor is detached and the loop is left. Otherwise, still inside the loop
  body, \<open>dwarf_end\<close> is called if the skeleton's link is still \<open>Unresolved\<close>, and
  the loop goes on.
\<close>

definition unit_matches :: "dwarf_cu \<Rightarrow> dwarf_cu \<Rightarrow> bool" where
  "unit_matches cu s \<longleftrightarrow> unit_type s = DW_UT_split_compile \<and> unit_id8 cu = unit_id8 s"

fun scan_units :: "nat \<Rightarrow> nat \<Rightarrow> nat list \<Rightarrow> world \<Rightarrow> fault + world" where
  "scan_units r d [] w =
     (if ended (dwarfs w ! d) \<noteq> 0 then Inl (UseAfterFree d (trace w) (open_fds w))
      else Inr (log (GetUnits d None) w))"
| "scan_units r d (s # us) w =
     (if ended (dwarfs w ! d) \<noteq> 0 then Inl (UseAfterFree d (trace w) (open_fds w))
      else (let w1 = log (GetUnits d (Some s)) w in
            if unit_matches (cus w1 ! r) (cus w1 ! s)
            then Inr (elf_cntl_FDDONE d (set_split s (Linked r) (set_split r (Linked s) w1)))
            else scan_units r d us
                   (if split (cus w1 ! r) = Unresolved then dwarf_end d w1 else w1)))"

text \<open>
  The body of \<open>if (cu->unit_type == DW_UT_skeleton)\<close> (lines 58 to 110), in two
  parts. First the path of the companion file (lines 62 to 71): the name comes from
  \<open>DW_AT_dwo_name\<close> or else \<open>DW_AT_GNU_dwo_name\<close>; it is tried without the
  compilation directory first, and with it if that gave nothing and there is one.
\<close>

definition find_dwo_path :: "env \<Rightarrow> dwarf_cu \<Rightarrow> string option" where
  "find_dwo_path E cu =
     (let compdir = dwarf_attr cu DW_AT_comp_dir
      in case (case dwarf_attr cu DW_AT_dwo_name of
                 Some a \<Rightarrow> Some a
               | None \<Rightarrow> dwarf_attr cu DW_AT_GNU_dwo_name) of
           None \<Rightarrow> None
         | Some a \<Rightarrow>
            (let comp_dir = dwarf_formstring compdir;
                 dwo_file = dwarf_formstring (Some a)
             in case filepath E (debugdir cu) None dwo_file of
                  Some p \<Rightarrow> Some p
                | None \<Rightarrow> if comp_dir \<noteq> None
                          then filepath E (debugdir cu) comp_dir dwo_file
                          else None))"

text \<open>
  Then the file itself (lines 72 to 109): open it, parse it, scan it, and close the
  descriptor whatever the parse and the scan did.
\<close>

definition try_dwo :: "env \<Rightarrow> world \<Rightarrow> nat \<Rightarrow> fault + world" where
  "try_dwo E w r =
     (case find_dwo_path E (cus w ! r) of
        None \<Rightarrow> Inr w
      | Some path \<Rightarrow>
         (case sys_open E path w of
            (None, w1) \<Rightarrow> Inr w1
          | (Some split_fd, w1) \<Rightarrow>
             (case dwarf_begin E path split_fd w1 of
                (None, w2) \<Rightarrow> Inr (sys_close split_fd w2)
              | (Some d, w2) \<Rightarrow>
                 (case scan_units r d (units (dwarfs w2 ! d)) w2 of
                    Inl f \<Rightarrow> Inl f
                  | Inr w3 \<Rightarrow> Inr (sys_close split_fd w3)))))"

text \<open>
  The whole function: return the cached link if there is one; otherwise try, and if the
  link is still \<open>Unresolved\<close> afterwards set it to \<open>NULL\<close>. The caller passes a
  pointer to a unit, so \<open>r\<close> is an index of the unit store; the properties below say
  so where they need it.
\<close>

definition find_split_unit :: "env \<Rightarrow> world \<Rightarrow> nat \<Rightarrow> fault + link \<times> world" where
  "find_split_unit E w r =
     (if split (cus w ! r) \<noteq> Unresolved then Inr (split (cus w ! r), w)
      else case (if unit_type (cus w ! r) = DW_UT_skeleton then try_dwo E w r else Inr w) of
             Inl f \<Rightarrow> Inl f
           | Inr w1 \<Rightarrow>
              (let w2 = (if split (cus w1 ! r) = Unresolved then set_split r NoneFound w1 else w1)
               in Inr (split (cus w2 ! r), w2)))"

text \<open>
  A caller that resolves several units one after the other; a fault ends the run.
\<close>

fun resolve_all :: "env \<Rightarrow> nat list \<Rightarrow> world \<Rightarrow> fault + world" where
  "resolve_all E [] w = Inr w"
| "resolve_all E (r # rs) w =
     (case find_split_unit E w r of
        Inl f \<Rightarrow> Inl f
      | Inr (l, w') \<Rightarrow> resolve_all E rs w')"

section \<open>Printing location expressions (tests/varlocs.c)\<close>

subsection \<open>Data model\<close>

text \<open>
  \<open>Dwarf_Op\<close> and \<open>Dwarf_Attribute\<close> are the structs of libdw.h. A \<open>Dwarf_Die\<close>,
  a \<open>Dwarf_CFI\<close> and a \<open>Dwarf_Frame\<close> are only handed back to libdw, so a number
  names each. A \<open>Dwarf_Block\<close> (length and data pointer) is the list of its bytes.
\<close>

record dwarf_op =
  atom :: "8 word"
  number :: "64 word"
  number2 :: "64 word"
  offset :: "64 word"

record dwarf_attribute =
  code :: nat
  form :: nat
  valp :: nat
  attr_cu :: nat

type_synonym dwarf_die = nat
type_synonym dwarf_cfi = nat
type_synonym dwarf_frame = nat
type_synonym dwarf_block = "8 word list"

text \<open>The global variables of the program that \<open>print_expr\<close> reads.\<close>

record globals =
  cfi_debug :: "dwarf_cfi option"
  cfi_debug_bias :: "64 word"
  cfi_eh :: "dwarf_cfi option"
  cfi_eh_bias :: "64 word"
  is_ET_REL :: bool
  is_debug :: bool
  has_frame_base :: bool

text \<open>
  The libdw functions the program calls are parameters. A function that returns 0 and
  fills a result, or fails, returns an option here; a pointer argument that the program
  may pass as \<open>NULL\<close> is an option. \<open>dwarf_getlocation_addr\<close> takes the
  attribute, the address and the number of expressions asked for (its last argument),
  and returns its count (negative on error) and the expression it found. The two name
  tables come from known-dwarf.h: each is the list of (code, name) pairs in the order of
  the header.
\<close>

record libdw =
  dwarf_getlocation_attr :: "dwarf_attribute option \<Rightarrow> dwarf_op \<Rightarrow> dwarf_attribute option"
  dwarf_getlocation_die :: "dwarf_attribute option \<Rightarrow> dwarf_op \<Rightarrow> dwarf_die option"
  dwarf_getlocation :: "dwarf_attribute \<Rightarrow> dwarf_op list option"
  dwarf_getlocation_addr :: "dwarf_attribute \<Rightarrow> 64 word \<Rightarrow> nat \<Rightarrow> int \<times> dwarf_op list"
  dwarf_getlocation_implicit_value :: "dwarf_attribute option \<Rightarrow> dwarf_op \<Rightarrow> dwarf_block option"
  dwarf_getlocation_implicit_pointer ::
    "dwarf_attribute option \<Rightarrow> dwarf_op \<Rightarrow> dwarf_attribute option"
  dwarf_formblock :: "dwarf_attribute \<Rightarrow> dwarf_block option"
  dwarf_formaddr :: "dwarf_attribute \<Rightarrow> 64 word option"
  dwarf_formudata :: "dwarf_attribute \<Rightarrow> 64 word option"
  dwarf_dieoffset :: "dwarf_die \<Rightarrow> 64 word"
  dwarf_cuoffset :: "dwarf_die \<Rightarrow> 64 word"
  dwarf_tag :: "dwarf_die \<Rightarrow> int"
  dwarf_diename :: "dwarf_die \<Rightarrow> string option"
  dwarf_attr_die :: "dwarf_die \<Rightarrow> nat \<Rightarrow> dwarf_attribute option"
  dwarf_hasattr :: "dwarf_die \<Rightarrow> nat \<Rightarrow> bool"
  dwarf_cfi_addrframe :: "dwarf_cfi option \<Rightarrow> 64 word \<Rightarrow> dwarf_frame option"
  dwarf_frame_cfa :: "dwarf_frame \<Rightarrow> dwarf_op list option"
  known_DW_OP :: "(nat \<times> string) list"
  known_DW_ATE :: "(nat \<times> string) list"

text \<open>
  Modelled from the spec: \<open>dwarf_getlocation_addr\<close> is a function of libdw whose code
  is not among the sources; this is the lookup of a location list that section 4.2 of the
  specification describes, in its single-shot form (one expression asked for). An entry
  is a range with its expression, or a base address for the entries after it; a range is
  half open and relative to the current base (64-bit addition), so a range of length zero
  covers nothing, and a base address entry never matches. The lookup collects the
  expressions of the ranges that cover the address. None is no location (count 0), one
  is the location (count 1), and more than one is an error (count \<open>-1\<close>).
\<close>

datatype loc_entry =
    BaseAddress "64 word"
  | Range "64 word" "64 word" "dwarf_op list"

fun covering :: "64 word \<Rightarrow> loc_entry list \<Rightarrow> 64 word \<Rightarrow> dwarf_op list list" where
  "covering base [] a = []"
| "covering base (BaseAddress b # es) a = covering b es a"
| "covering base (Range begin end expr # es) a =
     (if base + begin \<le> a \<and> a < base + end then expr # covering base es a
      else covering base es a)"

definition single_shot_lookup :: "64 word \<Rightarrow> loc_entry list \<Rightarrow> 64 word \<Rightarrow> int \<times> dwarf_op list" where
  "single_shot_lookup base es a =
     (case covering base es a of
        [] \<Rightarrow> (0, [])
      | [expr] \<Rightarrow> (1, expr)
      | _ \<Rightarrow> (- 1, []))"

text \<open>
  What a run leaves behind: the items written to standard output, in order, and how the
  run ended. \<open>error (EXIT_FAILURE, ...)\<close> ends the program with the given message
  (the format string stands for it); a failed \<open>assert\<close> aborts it.
\<close>

datatype out =
    Text string
  | Str "string option"
  | Hex "64 word"
  | Dec "64 word"
  | SDec int
  | Hex2 "8 word"
  | Size nat

datatype failure = Exit string | Assert string

type_synonym run = "out list \<times> failure option"

definition emit :: "out list \<Rightarrow> run" where
  "emit os = (os, None)"

definition error :: "string \<Rightarrow> run" where
  "error msg = ([], Some (Exit msg))"

definition assert :: "bool \<Rightarrow> string \<Rightarrow> run" where
  "assert b what = (if b then ([], None) else ([], Some (Assert what)))"

text \<open>One statement after another: the second runs only if the first did not end the program.\<close>

definition seq :: "run \<Rightarrow> run \<Rightarrow> run" where
  "seq a b = (case snd a of None \<Rightarrow> (fst a @ fst b, snd b) | Some f \<Rightarrow> a)"

subsection \<open>Constants of dwarf.h\<close>

definition DW_OP_addr :: "8 word" where "DW_OP_addr = 0x03"
definition DW_OP_deref :: "8 word" where "DW_OP_deref = 0x06"
definition DW_OP_const1u :: "8 word" where "DW_OP_const1u = 0x08"
definition DW_OP_const1s :: "8 word" where "DW_OP_const1s = 0x09"
definition DW_OP_const2u :: "8 word" where "DW_OP_const2u = 0x0a"
definition DW_OP_const2s :: "8 word" where "DW_OP_const2s = 0x0b"
definition DW_OP_const4u :: "8 word" where "DW_OP_const4u = 0x0c"
definition DW_OP_const4s :: "8 word" where "DW_OP_const4s = 0x0d"
definition DW_OP_const8u :: "8 word" where "DW_OP_const8u = 0x0e"
definition DW_OP_const8s :: "8 word" where "DW_OP_const8s = 0x0f"
definition DW_OP_constu :: "8 word" where "DW_OP_constu = 0x10"
definition DW_OP_consts :: "8 word" where "DW_OP_consts = 0x11"
definition DW_OP_dup :: "8 word" where "DW_OP_dup = 0x12"
definition DW_OP_drop :: "8 word" where "DW_OP_drop = 0x13"
definition DW_OP_over :: "8 word" where "DW_OP_over = 0x14"
definition DW_OP_pick :: "8 word" where "DW_OP_pick = 0x15"
definition DW_OP_swap :: "8 word" where "DW_OP_swap = 0x16"
definition DW_OP_rot :: "8 word" where "DW_OP_rot = 0x17"
definition DW_OP_xderef :: "8 word" where "DW_OP_xderef = 0x18"
definition DW_OP_abs :: "8 word" where "DW_OP_abs = 0x19"
definition DW_OP_and :: "8 word" where "DW_OP_and = 0x1a"
definition DW_OP_div :: "8 word" where "DW_OP_div = 0x1b"
definition DW_OP_minus :: "8 word" where "DW_OP_minus = 0x1c"
definition DW_OP_mod :: "8 word" where "DW_OP_mod = 0x1d"
definition DW_OP_mul :: "8 word" where "DW_OP_mul = 0x1e"
definition DW_OP_neg :: "8 word" where "DW_OP_neg = 0x1f"
definition DW_OP_not :: "8 word" where "DW_OP_not = 0x20"
definition DW_OP_or :: "8 word" where "DW_OP_or = 0x21"
definition DW_OP_plus :: "8 word" where "DW_OP_plus = 0x22"
definition DW_OP_plus_uconst :: "8 word" where "DW_OP_plus_uconst = 0x23"
definition DW_OP_shl :: "8 word" where "DW_OP_shl = 0x24"
definition DW_OP_shr :: "8 word" where "DW_OP_shr = 0x25"
definition DW_OP_shra :: "8 word" where "DW_OP_shra = 0x26"
definition DW_OP_xor :: "8 word" where "DW_OP_xor = 0x27"
definition DW_OP_bra :: "8 word" where "DW_OP_bra = 0x28"
definition DW_OP_eq :: "8 word" where "DW_OP_eq = 0x29"
definition DW_OP_ge :: "8 word" where "DW_OP_ge = 0x2a"
definition DW_OP_gt :: "8 word" where "DW_OP_gt = 0x2b"
definition DW_OP_le :: "8 word" where "DW_OP_le = 0x2c"
definition DW_OP_lt :: "8 word" where "DW_OP_lt = 0x2d"
definition DW_OP_ne :: "8 word" where "DW_OP_ne = 0x2e"
definition DW_OP_skip :: "8 word" where "DW_OP_skip = 0x2f"
definition DW_OP_lit0 :: "8 word" where "DW_OP_lit0 = 0x30"
definition DW_OP_lit31 :: "8 word" where "DW_OP_lit31 = 0x4f"
definition DW_OP_reg0 :: "8 word" where "DW_OP_reg0 = 0x50"
definition DW_OP_reg31 :: "8 word" where "DW_OP_reg31 = 0x6f"
definition DW_OP_breg0 :: "8 word" where "DW_OP_breg0 = 0x70"
definition DW_OP_breg31 :: "8 word" where "DW_OP_breg31 = 0x8f"
definition DW_OP_regx :: "8 word" where "DW_OP_regx = 0x90"
definition DW_OP_fbreg :: "8 word" where "DW_OP_fbreg = 0x91"
definition DW_OP_bregx :: "8 word" where "DW_OP_bregx = 0x92"
definition DW_OP_piece :: "8 word" where "DW_OP_piece = 0x93"
definition DW_OP_deref_size :: "8 word" where "DW_OP_deref_size = 0x94"
definition DW_OP_xderef_size :: "8 word" where "DW_OP_xderef_size = 0x95"
definition DW_OP_nop :: "8 word" where "DW_OP_nop = 0x96"
definition DW_OP_push_object_address :: "8 word" where "DW_OP_push_object_address = 0x97"
definition DW_OP_call2 :: "8 word" where "DW_OP_call2 = 0x98"
definition DW_OP_call4 :: "8 word" where "DW_OP_call4 = 0x99"
definition DW_OP_call_ref :: "8 word" where "DW_OP_call_ref = 0x9a"
definition DW_OP_form_tls_address :: "8 word" where "DW_OP_form_tls_address = 0x9b"
definition DW_OP_call_frame_cfa :: "8 word" where "DW_OP_call_frame_cfa = 0x9c"
definition DW_OP_bit_piece :: "8 word" where "DW_OP_bit_piece = 0x9d"
definition DW_OP_implicit_value :: "8 word" where "DW_OP_implicit_value = 0x9e"
definition DW_OP_stack_value :: "8 word" where "DW_OP_stack_value = 0x9f"
definition DW_OP_implicit_pointer :: "8 word" where "DW_OP_implicit_pointer = 0xa0"
definition DW_OP_addrx :: "8 word" where "DW_OP_addrx = 0xa1"
definition DW_OP_constx :: "8 word" where "DW_OP_constx = 0xa2"
definition DW_OP_entry_value :: "8 word" where "DW_OP_entry_value = 0xa3"
definition DW_OP_const_type :: "8 word" where "DW_OP_const_type = 0xa4"
definition DW_OP_regval_type :: "8 word" where "DW_OP_regval_type = 0xa5"
definition DW_OP_deref_type :: "8 word" where "DW_OP_deref_type = 0xa6"
definition DW_OP_xderef_type :: "8 word" where "DW_OP_xderef_type = 0xa7"
definition DW_OP_convert :: "8 word" where "DW_OP_convert = 0xa8"
definition DW_OP_reinterpret :: "8 word" where "DW_OP_reinterpret = 0xa9"
definition DW_OP_GNU_push_tls_address :: "8 word" where "DW_OP_GNU_push_tls_address = 0xe0"
definition DW_OP_GNU_uninit :: "8 word" where "DW_OP_GNU_uninit = 0xf0"
definition DW_OP_GNU_implicit_pointer :: "8 word" where "DW_OP_GNU_implicit_pointer = 0xf2"
definition DW_OP_GNU_entry_value :: "8 word" where "DW_OP_GNU_entry_value = 0xf3"
definition DW_OP_GNU_const_type :: "8 word" where "DW_OP_GNU_const_type = 0xf4"
definition DW_OP_GNU_regval_type :: "8 word" where "DW_OP_GNU_regval_type = 0xf5"
definition DW_OP_GNU_deref_type :: "8 word" where "DW_OP_GNU_deref_type = 0xf6"
definition DW_OP_GNU_convert :: "8 word" where "DW_OP_GNU_convert = 0xf7"
definition DW_OP_GNU_reinterpret :: "8 word" where "DW_OP_GNU_reinterpret = 0xf9"
definition DW_OP_GNU_parameter_ref :: "8 word" where "DW_OP_GNU_parameter_ref = 0xfa"
definition DW_OP_GNU_addr_index :: "8 word" where "DW_OP_GNU_addr_index = 0xfb"
definition DW_OP_GNU_const_index :: "8 word" where "DW_OP_GNU_const_index = 0xfc"
definition DW_OP_GNU_variable_value :: "8 word" where "DW_OP_GNU_variable_value = 0xfd"

definition DW_TAG_formal_parameter :: int where "DW_TAG_formal_parameter = 0x05"
definition DW_TAG_base_type :: int where "DW_TAG_base_type = 0x24"

definition DW_AT_byte_size :: nat where "DW_AT_byte_size = 0x0b"
definition DW_AT_bit_size :: nat where "DW_AT_bit_size = 0x0d"
definition DW_AT_const_value :: nat where "DW_AT_const_value = 0x1c"
definition DW_AT_frame_base :: nat where "DW_AT_frame_base = 0x40"
definition DW_AT_encoding :: nat where "DW_AT_encoding = 0x3e"

subsection \<open>Name tables\<close>

text \<open>
  \<open>dwarf_opcode_string\<close> and \<open>dwarf_encoding_string\<close> index an array built with
  designated initialisers from the table of known-dwarf.h: the array is as long as the
  largest code asks for, a later entry for the same code replaces an earlier one, and an
  index without entry holds \<open>NULL\<close>.
\<close>

definition known_size :: "(nat \<times> string) list \<Rightarrow> nat" where
  "known_size known = (if known = [] then 0 else Suc (fold max (map fst known) 0))"

definition known_string :: "(nat \<times> string) list \<Rightarrow> string \<Rightarrow> nat \<Rightarrow> string option" where
  "known_string known unknown c =
     (if c < known_size known then map_of (rev known) c else Some unknown)"

definition dwarf_opcode_string :: "libdw \<Rightarrow> nat \<Rightarrow> string option" where
  "dwarf_opcode_string L c = known_string (known_DW_OP L) ''<unknown opcode>'' c"

definition dwarf_encoding_string :: "libdw \<Rightarrow> nat \<Rightarrow> string option" where
  "dwarf_encoding_string L c = known_string (known_DW_ATE L) ''<unknown encoding>'' c"

subsection \<open>print\_base\_type\<close>

text \<open>
  The size is the byte size times eight (in 64 bits) when there is one that reads as a
  number, else the bit size. The encoding is passed to \<open>dwarf_encoding_string\<close> as an
  \<open>unsigned int\<close>, so only its low 32 bits count.
\<close>

definition print_base_type :: "libdw \<Rightarrow> dwarf_die \<Rightarrow> run" where
  "print_base_type L base =
     (if dwarf_tag L base \<noteq> DW_TAG_base_type then error ''not a base type''
      else case (case dwarf_attr_die L base DW_AT_encoding of
                   None \<Rightarrow> None
                 | Some encoding \<Rightarrow> dwarf_formudata L encoding) of
             None \<Rightarrow> error ''base type without encoding''
           | Some enctype \<Rightarrow>
              (case (case (case dwarf_attr_die L base DW_AT_byte_size of
                             None \<Rightarrow> None
                           | Some bsize \<Rightarrow> dwarf_formudata L bsize) of
                       Some bits \<Rightarrow> Some (bits * 8)
                     | None \<Rightarrow>
                        (case dwarf_attr_die L base DW_AT_bit_size of
                           None \<Rightarrow> None
                         | Some bsize \<Rightarrow> dwarf_formudata L bsize)) of
                 None \<Rightarrow> error ''base type without byte or bit size''
               | Some bits \<Rightarrow>
                  emit [Text ''{'', Str (dwarf_diename L base), Text '','',
                        Str (dwarf_encoding_string L (unat enctype mod 2 ^ 32)), Text '','',
                        Dec bits, Text ''@['', Hex (dwarf_dieoffset L base), Text '']}'']))"

subsection \<open>The cases of the switch in print\_expr\<close>

text \<open>One constructor for each group of \<open>case\<close> labels, in the order of the source.\<close>

datatype op_class =
    NoArgs | FormTlsAddress | GnuPushTlsAddress | GnuUninit | CallFrameCfa
  | PushObjectAddress | Addr | Unsigned1 | Call | Signed1 | Fbreg | Bregx | BitPiece
  | ImplicitValue | ImplicitPointer | VariableValue | EntryValue | ParameterRef
  | Convert | RegvalType | DerefType | XderefType | ConstType | AddrIndex | ConstIndex
  | Unhandled

definition op_class :: "8 word \<Rightarrow> op_class" where
  "op_class a =
     (if a \<in> set [DW_OP_deref, DW_OP_dup, DW_OP_drop, DW_OP_over, DW_OP_swap, DW_OP_rot,
                   DW_OP_xderef, DW_OP_abs, DW_OP_and, DW_OP_div, DW_OP_minus, DW_OP_mod,
                   DW_OP_mul, DW_OP_neg, DW_OP_not, DW_OP_or, DW_OP_plus, DW_OP_shl,
                   DW_OP_shr, DW_OP_shra, DW_OP_xor, DW_OP_eq, DW_OP_ge, DW_OP_gt,
                   DW_OP_le, DW_OP_lt, DW_OP_ne, DW_OP_nop, DW_OP_stack_value]
         \<or> (DW_OP_lit0 \<le> a \<and> a \<le> DW_OP_lit31) \<or> (DW_OP_reg0 \<le> a \<and> a \<le> DW_OP_reg31)
      then NoArgs
      else if a = DW_OP_form_tls_address then FormTlsAddress
      else if a = DW_OP_GNU_push_tls_address then GnuPushTlsAddress
      else if a = DW_OP_GNU_uninit then GnuUninit
      else if a = DW_OP_call_frame_cfa then CallFrameCfa
      else if a = DW_OP_push_object_address then PushObjectAddress
      else if a = DW_OP_addr then Addr
      else if a \<in> set [DW_OP_const1u, DW_OP_const2u, DW_OP_const4u, DW_OP_const8u,
                        DW_OP_constu, DW_OP_pick, DW_OP_plus_uconst, DW_OP_regx,
                        DW_OP_piece, DW_OP_deref_size, DW_OP_xderef_size]
      then Unsigned1
      else if a \<in> set [DW_OP_call2, DW_OP_call4, DW_OP_call_ref] then Call
      else if a \<in> set [DW_OP_const1s, DW_OP_const2s, DW_OP_const4s, DW_OP_const8s,
                        DW_OP_consts, DW_OP_skip, DW_OP_bra]
              \<or> (DW_OP_breg0 \<le> a \<and> a \<le> DW_OP_breg31)
      then Signed1
      else if a = DW_OP_fbreg then Fbreg
      else if a = DW_OP_bregx then Bregx
      else if a = DW_OP_bit_piece then BitPiece
      else if a = DW_OP_implicit_value then ImplicitValue
      else if a \<in> set [DW_OP_implicit_pointer, DW_OP_GNU_implicit_pointer] then ImplicitPointer
      else if a = DW_OP_GNU_variable_value then VariableValue
      else if a \<in> set [DW_OP_entry_value, DW_OP_GNU_entry_value] then EntryValue
      else if a = DW_OP_GNU_parameter_ref then ParameterRef
      else if a \<in> set [DW_OP_convert, DW_OP_GNU_convert, DW_OP_reinterpret,
                        DW_OP_GNU_reinterpret]
      then Convert
      else if a \<in> set [DW_OP_regval_type, DW_OP_GNU_regval_type] then RegvalType
      else if a \<in> set [DW_OP_deref_type, DW_OP_GNU_deref_type] then DerefType
      else if a = DW_OP_xderef_type then XderefType
      else if a \<in> set [DW_OP_const_type, DW_OP_GNU_const_type] then ConstType
      else if a \<in> set [DW_OP_GNU_addr_index, DW_OP_addrx] then AddrIndex
      else if a \<in> set [DW_OP_GNU_const_index, DW_OP_constx] then ConstIndex
      else Unhandled)"

text \<open>
  \<open>DW_OP_implicit_value\<close> (lines 394 to 423): the block is fetched twice, through
  the attribute and through \<open>dwarf_getlocation_implicit_value\<close>; three assertions
  compare the operand and the two lengths, and the loop prints each byte and then compares
  it with the byte of the other block. The loop runs to the length of the first block;
  after the second assertion the other block is as long, so its last equation is never
  reached by the program.
\<close>

fun implicit_value_bytes :: "dwarf_block \<Rightarrow> dwarf_block \<Rightarrow> run" where
  "implicit_value_bytes [] impl = emit []"
| "implicit_value_bytes (b # bs) (c # cs) =
     seq (emit [Hex2 b])
       (seq (assert (b = c) ''block.data[i] == block_impl.data[i]'')
            (implicit_value_bytes bs cs))"
| "implicit_value_bytes (b # bs) [] =
     seq (emit [Hex2 b]) (assert False ''block.data[i] == block_impl.data[i]'')"

definition print_implicit_value ::
  "libdw \<Rightarrow> dwarf_attribute option \<Rightarrow> dwarf_op \<Rightarrow> string option \<Rightarrow> run" where
  "print_implicit_value L attr expr opname =
     (case dwarf_getlocation_attr L attr expr of
        None \<Rightarrow> error ''dwarf_getlocation_attr: %s''
      | Some const_attr \<Rightarrow>
         (case dwarf_formblock L const_attr of
            None \<Rightarrow> error ''dwarf_formblock: %s''
          | Some block \<Rightarrow>
             (case dwarf_getlocation_implicit_value L attr expr of
                None \<Rightarrow> error ''dwarf_getlocation_implicit_value: %s''
              | Some block_impl \<Rightarrow>
                 seq (assert (unat (number expr) = length block) ''expr->number == block.length'')
                  (seq (assert (length block = length block_impl)
                          ''block.length == block_impl.length'')
                   (seq (emit [Str opname, Text ''('', Dec (of_nat (length block)), Text ''){''])
                    (seq (implicit_value_bytes block block_impl)
                         (emit [Text ''}''])))))))"

text \<open>The cases that look up a DIE or an attribute and print it, without recursion.\<close>

definition opname :: "libdw \<Rightarrow> dwarf_op \<Rightarrow> string option" where
  "opname L expr = dwarf_opcode_string L (unat (atom expr))"

definition print_parameter_ref :: "libdw \<Rightarrow> dwarf_attribute option \<Rightarrow> dwarf_op \<Rightarrow> run" where
  "print_parameter_ref L attr expr =
     (case dwarf_getlocation_die L attr expr of
        None \<Rightarrow> error ''dwarf_getlocation_die: %s''
      | Some param \<Rightarrow>
         seq (emit [Str (opname L expr), Text ''['', Hex (dwarf_dieoffset L param), Text '']''])
          (seq (assert (number expr = dwarf_cuoffset L param)
                  ''expr->number == dwarf_cuoffset (&param)'')
               (if dwarf_tag L param \<noteq> DW_TAG_formal_parameter
                then error ''Not a formal parameter'' else emit [])))"

definition print_convert :: "libdw \<Rightarrow> dwarf_attribute option \<Rightarrow> dwarf_op \<Rightarrow> run" where
  "print_convert L attr expr =
     (if number expr \<noteq> 0
      then (case dwarf_getlocation_die L attr expr of
              None \<Rightarrow> error ''dwarf_getlocation_die: %s''
            | Some type \<Rightarrow>
               seq (assert (number expr = dwarf_cuoffset L type)
                      ''expr->number == dwarf_cuoffset (&type)'')
                (seq (emit [Str (opname L expr)]) (print_base_type L type)))
      else emit [Str (opname L expr), Text ''['', Dec (number expr), Text '']''])"

definition print_regval_type :: "libdw \<Rightarrow> dwarf_attribute option \<Rightarrow> dwarf_op \<Rightarrow> run" where
  "print_regval_type L attr expr =
     (case dwarf_getlocation_die L attr expr of
        None \<Rightarrow> error ''dwarf_getlocation_die: %s''
      | Some type \<Rightarrow>
         seq (assert (number2 expr = dwarf_cuoffset L type)
                ''expr->number2 == dwarf_cuoffset (&type)'')
          (seq (emit [Str (opname L expr), Text ''(reg'', Dec (number expr), Text '')''])
               (print_base_type L type)))"

definition print_deref_type :: "libdw \<Rightarrow> dwarf_attribute option \<Rightarrow> dwarf_op \<Rightarrow> run" where
  "print_deref_type L attr expr =
     (case dwarf_getlocation_die L attr expr of
        None \<Rightarrow> error ''dwarf_getlocation_die: %s''
      | Some type \<Rightarrow>
         seq (assert (number2 expr = dwarf_cuoffset L type)
                ''expr->number2 == dwarf_cuoffset (&type)'')
          (seq (emit [Str (opname L expr), Text ''('', Dec (number expr), Text '')''])
               (print_base_type L type)))"

definition print_xderef_type :: "libdw \<Rightarrow> dwarf_attribute option \<Rightarrow> dwarf_op \<Rightarrow> run" where
  "print_xderef_type L attr expr =
     (case dwarf_getlocation_die L attr expr of
        None \<Rightarrow> error ''dwarf_getlocation_die: %s''
      | Some type \<Rightarrow>
         seq (emit [Str (opname L expr), Text ''('', Dec (number expr), Text '')''])
             (print_base_type L type))"

definition print_const_type :: "libdw \<Rightarrow> dwarf_attribute option \<Rightarrow> dwarf_op \<Rightarrow> run" where
  "print_const_type L attr expr =
     (case dwarf_getlocation_die L attr expr of
        None \<Rightarrow> error ''dwarf_getlocation_die: %s''
      | Some type \<Rightarrow>
         seq (assert (number expr = dwarf_cuoffset L type)
                ''expr->number == dwarf_cuoffset (&type)'')
          (case dwarf_getlocation_attr L attr expr of
             None \<Rightarrow> error ''dwarf_getlocation_attr for type: %s''
           | Some const_attr \<Rightarrow>
              (case dwarf_formblock L const_attr of
                 None \<Rightarrow> error ''dwarf_formblock for type: %s''
               | Some block \<Rightarrow>
                  seq (emit [Str (opname L expr)])
                   (seq (print_base_type L type)
                    (emit ([Text ''('', Dec (of_nat (length block)), Text '')['']
                           @ map Hex2 block @ [Text '']'']))))))"

definition print_addr_index :: "libdw \<Rightarrow> dwarf_attribute option \<Rightarrow> dwarf_op \<Rightarrow> run" where
  "print_addr_index L attr expr =
     (case dwarf_getlocation_attr L attr expr of
        None \<Rightarrow> error ''dwarf_getlocation_attr for addr: %s''
      | Some addr_attr \<Rightarrow>
         (case dwarf_formaddr L addr_attr of
            None \<Rightarrow> error ''dwarf_formaddr address failed: %s''
          | Some address \<Rightarrow> emit [Text ''addr: 0x'', Hex address]))"

definition print_const_index :: "libdw \<Rightarrow> dwarf_attribute option \<Rightarrow> dwarf_op \<Rightarrow> run" where
  "print_const_index L attr expr =
     (case dwarf_getlocation_attr L attr expr of
        None \<Rightarrow> error ''dwarf_getlocation_attr for addr: %s''
      | Some addr_attr \<Rightarrow>
         (case dwarf_formudata L addr_attr of
            None \<Rightarrow> error ''dwarf_formudata constant failed: %s''
          | Some constant \<Rightarrow> emit [Text ''const: 0x'', Hex constant]))"

text \<open>
  \<open>DW_OP_call_frame_cfa\<close> looks for a frame in the \<open>.eh_frame\<close> table first and in
  the \<open>.debug_frame\<close> table if that fails, each at the address plus the table's bias
  (64-bit addition).
\<close>

definition find_frame :: "libdw \<Rightarrow> globals \<Rightarrow> 64 word \<Rightarrow> dwarf_frame option" where
  "find_frame L G addr =
     (case dwarf_cfi_addrframe L (cfi_eh G) (addr + cfi_eh_bias G) of
        Some frame \<Rightarrow> Some frame
      | None \<Rightarrow> dwarf_cfi_addrframe L (cfi_debug G) (addr + cfi_debug_bias G))"

subsection \<open>print\_expr and print\_expr\_block\<close>

definition MAX_DEPTH :: int where "MAX_DEPTH = 64"

text \<open>
  \<open>print_expr\<close> tests \<open>depth++ > MAX_DEPTH\<close> first, so every call it makes passes
  \<open>depth + 1\<close>. The implicit pointer and the variable value ask
  \<open>dwarf_getlocation_addr\<close> for one expression (last argument 1) and branch on the
  count it returns: 0, 1, or anything else. \<open>print_expr_block\<close> prints the braces around its \<open>for\<close> loop,
  which is \<open>print_expr_block_loop\<close>. The recursion follows the DWARF data, which may
  refer to itself; only the depth test ends it.
\<close>

function
  print_expr :: "libdw \<Rightarrow> globals \<Rightarrow> dwarf_attribute option \<Rightarrow> dwarf_op \<Rightarrow> 64 word \<Rightarrow> int \<Rightarrow> run"
and
  print_expr_block ::
    "libdw \<Rightarrow> globals \<Rightarrow> dwarf_attribute option \<Rightarrow> dwarf_op list \<Rightarrow> 64 word \<Rightarrow> int \<Rightarrow> run"
and
  print_expr_block_loop ::
    "libdw \<Rightarrow> globals \<Rightarrow> dwarf_attribute option \<Rightarrow> dwarf_op list \<Rightarrow> 64 word \<Rightarrow> int \<Rightarrow> run"
where
  "print_expr L G attr expr addr depth =
     (if depth > MAX_DEPTH then error ''print_expr recursion depth exceeded''
      else case op_class (atom expr) of
        NoArgs \<Rightarrow> emit [Str (opname L expr)]
      | FormTlsAddress \<Rightarrow> emit [Str (opname L expr)]
      | GnuPushTlsAddress \<Rightarrow> emit [Str (opname L expr)]
      | GnuUninit \<Rightarrow> emit [Str (opname L expr)]
      | CallFrameCfa \<Rightarrow>
         (if attr = None then error ''%s used in CFI''
          else seq (emit [Str (opname L expr), Text '' ''])
           (if cfi_eh G = None \<and> cfi_debug G = None \<and> \<not> is_debug G
            then error ''DW_OP_call_frame_cfa used but no cfi found.''
            else case find_frame L G addr of
              Some frame \<Rightarrow>
               (case dwarf_frame_cfa L frame of
                  None \<Rightarrow> error ''dwarf_frame_cfa 0x%lx: %s''
                | Some cfa_ops \<Rightarrow>
                   if length cfa_ops < 1 then error ''dwarf_frame_cfa no ops''
                   else print_expr_block L G None cfa_ops 0 (depth + 1))
            | None \<Rightarrow>
               if is_ET_REL G \<or> is_debug G then emit [Text ''{...}'']
               else error ''dwarf_cfi_addrframe 0x%lx: %s''))
      | PushObjectAddress \<Rightarrow>
         (if attr = None then error ''%s used in CFI'' else emit [Str (opname L expr)])
      | Addr \<Rightarrow> emit [Str (opname L expr), Text ''(0x'', Hex (number expr), Text '')'']
      | Unsigned1 \<Rightarrow> emit [Str (opname L expr), Text ''('', Dec (number expr), Text '')'']
      | Call \<Rightarrow>
         (if attr = None then error ''%s used in CFI''
          else case dwarf_getlocation_attr L attr expr of
            None \<Rightarrow> error ''dwarf_getlocation_attr for %s error %s''
          | Some call_attr \<Rightarrow>
             (case dwarf_getlocation_die L attr expr of
                None \<Rightarrow> error ''dwarf_getlocation_die for %s error %s''
              | Some call_die \<Rightarrow>
                 (case dwarf_getlocation L call_attr of
                    None \<Rightarrow> error ''dwarf_getlocation for entry: %s''
                  | Some call_ops \<Rightarrow>
                     seq (emit [Str (opname L expr), Text ''(['',
                                Hex (dwarf_dieoffset L call_die), Text '']) ''])
                         (print_expr_block L G (Some call_attr) call_ops addr (depth + 1)))))
      | Signed1 \<Rightarrow> emit [Str (opname L expr), Text ''('', SDec (sint (number expr)), Text '')'']
      | Fbreg \<Rightarrow>
         (if attr = None then error ''%s used in CFI''
          else if \<not> has_frame_base G then error ''DW_OP_fbreg used without a frame base''
          else emit [Str (opname L expr), Text ''('', SDec (sint (number expr)), Text '')''])
      | Bregx \<Rightarrow>
         emit [Str (opname L expr), Text ''('', Dec (number expr), Text '','',
               SDec (sint (number2 expr)), Text '')'']
      | BitPiece \<Rightarrow>
         emit [Str (opname L expr), Text ''('', Dec (number expr), Text '','',
               Dec (number2 expr), Text '')'']
      | ImplicitValue \<Rightarrow> print_implicit_value L attr expr (opname L expr)
      | ImplicitPointer \<Rightarrow>
         (if attr = None then error ''%s used in CFI''
          else case dwarf_getlocation_implicit_pointer L attr expr of
            None \<Rightarrow> error ''dwarf_getlocation_implicit_pointer: %s''
          | Some attrval \<Rightarrow>
             (case dwarf_getlocation_attr L attr expr of
                None \<Rightarrow> error ''dwarf_getlocation_attr: %s''
              | Some attrval2 \<Rightarrow>
                 seq (assert (code attrval = code attrval2)
                        ''dwarf_whatattr (&attrval) == dwarf_whatattr (&attrval2)'')
                  (seq (assert (form attrval = form attrval2)
                          ''dwarf_whatform (&attrval) == dwarf_whatform (&attrval2)'')
                   (seq (assert (valp attrval = valp attrval2) ''attrval.valp == attrval2.valp'')
                    (case dwarf_getlocation_die L attr expr of
                       None \<Rightarrow> error ''dwarf_getlocation_die: %s''
                     | Some impl_die \<Rightarrow>
                        seq (emit [Str (opname L expr), Text ''(['',
                                   Hex (dwarf_dieoffset L impl_die), Text ''],'',
                                   SDec (sint (number2 expr)), Text '') ''])
                         (if code attrval = DW_AT_const_value then emit [Text ''<constant value>'']
                          else if fst (dwarf_getlocation_addr L attrval addr 1) = 0
                          then emit [Text ''<no location>'']
                          else if fst (dwarf_getlocation_addr L attrval addr 1) = 1
                          then print_expr_block L G (Some attrval)
                                 (snd (dwarf_getlocation_addr L attrval addr 1)) addr (depth + 1)
                          else error
                            ''dwarf_getlocation_addr attrval at addr 0x%lx, locs (%d): %s''))))))
      | VariableValue \<Rightarrow>
         (if attr = None then error ''%s used in CFI''
          else case dwarf_getlocation_attr L attr expr of
            None \<Rightarrow> error ''dwarf_getlocation_attr: %s''
          | Some attrval \<Rightarrow>
             (case dwarf_getlocation_die L attr expr of
                None \<Rightarrow> error ''dwarf_getlocation_die: %s''
              | Some impl_die \<Rightarrow>
                 seq (emit [Str (opname L expr), Text ''(['',
                            Hex (dwarf_dieoffset L impl_die), Text '']) ''])
                  (if code attrval = DW_AT_const_value then emit [Text ''<constant value>'']
                   else if fst (dwarf_getlocation_addr L attrval addr 1) = 0
                   then emit [Text ''<no location>'']
                   else if fst (dwarf_getlocation_addr L attrval addr 1) = 1
                   then print_expr_block L G (Some attrval)
                          (snd (dwarf_getlocation_addr L attrval addr 1)) addr (depth + 1)
                   else error
                     ''dwarf_getlocation_addr attrval at addr 0x%lx, locs (%d): %s'')))
      | EntryValue \<Rightarrow>
         (case dwarf_getlocation_attr L attr expr of
            None \<Rightarrow> error ''dwarf_getlocation_attr: %s''
          | Some entry_attr \<Rightarrow>
             (case dwarf_getlocation L entry_attr of
                None \<Rightarrow> error ''dwarf_getlocation for entry: %s''
              | Some entry_ops \<Rightarrow>
                 seq (emit [Str (opname L expr), Text ''('', Size (length entry_ops), Text '') ''])
                     (print_expr_block L G attr entry_ops addr (depth + 1))))
      | ParameterRef \<Rightarrow> print_parameter_ref L attr expr
      | Convert \<Rightarrow> print_convert L attr expr
      | RegvalType \<Rightarrow> print_regval_type L attr expr
      | DerefType \<Rightarrow> print_deref_type L attr expr
      | XderefType \<Rightarrow> print_xderef_type L attr expr
      | ConstType \<Rightarrow> print_const_type L attr expr
      | AddrIndex \<Rightarrow> print_addr_index L attr expr
      | ConstIndex \<Rightarrow> print_const_index L attr expr
      | Unhandled \<Rightarrow> error ''unhandled opcode: DW_OP_%s (0x%x)'')"
| "print_expr_block L G attr exprs addr depth =
     seq (emit [Text ''{''])
       (seq (print_expr_block_loop L G attr exprs addr depth) (emit [Text ''}'']))"
| "print_expr_block_loop L G attr [] addr depth = emit []"
| "print_expr_block_loop L G attr (e # es) addr depth =
     seq (print_expr L G attr e addr depth)
       (seq (emit [Str (Some (if es \<noteq> [] then '', '' else []))])
            (print_expr_block_loop L G attr es addr depth))"
  by pat_completeness auto
termination
  by (relation "inv_image (less_than <*lex*> less_than)
        (\<lambda>x. case x of
           Inl (L, G, attr, expr, addr, depth) \<Rightarrow> (2 * nat (65 - depth), 0)
         | Inr (Inl (L, G, attr, exprs, addr, depth)) \<Rightarrow> (2 * nat (65 - depth) + 1, length exprs + 2)
         | Inr (Inr (L, G, attr, exprs, addr, depth)) \<Rightarrow> (2 * nat (65 - depth) + 1, length exprs + 1))")
     (auto simp: MAX_DEPTH_def)

declare print_expr.simps [simp del] print_expr_block.simps [simp del]

text \<open>
  \<open>handle_die\<close> (lines 1018 to 1022) sets \<open>has_frame_base\<close> before it prints the
  attributes of a DIE: the DIE has a \<open>DW_AT_frame_base\<close> itself, or an outer DIE had.
\<close>

definition handle_die_frame_base :: "libdw \<Rightarrow> globals \<Rightarrow> dwarf_die \<Rightarrow> bool \<Rightarrow> globals" where
  "handle_die_frame_base L G die outer_has_frame_base =
     G\<lparr>has_frame_base := dwarf_hasattr L die DW_AT_frame_base \<or> outer_has_frame_base\<rparr>"


section \<open>Concrete inputs\<close>

text \<open>
  A file system and a unit store with seven skeleton units. Unit 0 names \<open>a.dwo\<close>,
  whose second unit matches it, after a type unit. Unit 1 names \<open>b.dwo\<close>, which
  parses but has no unit. Unit 2 names \<open>c.dwo\<close>, whose two units do not match it.
  Unit 3 names \<open>d.dwo\<close>, whose only unit matches it. Unit 4 was resolved before, to
  nothing. Unit 5 names \<open>f.dwo\<close>, which opens but is no DWARF container. Unit 6 names
  a file that cannot be opened. Descriptors 0, 1 and 2 are open.
\<close>

definition ex_env :: env where
  "ex_env =
     \<lparr>filepath = (\<lambda>debugdir dir file. file),
      can_open = (\<lambda>p. p \<noteq> ''/x/missing.dwo''),
      parse = (\<lambda>p. if p = ''/x/a.dwo''
                    then Some [(DW_UT_split_type, 7), (DW_UT_split_compile, 1)]
                    else if p = ''/x/b.dwo'' then Some []
                    else if p = ''/x/c.dwo''
                    then Some [(DW_UT_split_compile, 9), (DW_UT_split_type, 7)]
                    else if p = ''/x/d.dwo'' then Some [(DW_UT_split_compile, 4)]
                    else None)\<rparr>"

definition skeleton_unit :: "64 word \<Rightarrow> string \<Rightarrow> dwarf_cu" where
  "skeleton_unit i name =
     \<lparr>unit_type = DW_UT_skeleton, unit_id8 = i, split = Unresolved,
      debugdir = None, attrs = [(DW_AT_dwo_name, Some name)]\<rparr>"

definition ex_world :: world where
  "ex_world =
     \<lparr>cus = [skeleton_unit 1 ''/x/a.dwo'', skeleton_unit 2 ''/x/b.dwo'',
             skeleton_unit 3 ''/x/c.dwo'', skeleton_unit 4 ''/x/d.dwo'',
             (skeleton_unit 5 ''/x/e.dwo'')\<lparr>split := NoneFound\<rparr>,
             skeleton_unit 6 ''/x/f.dwo'', skeleton_unit 7 ''/x/missing.dwo''],
      dwarfs = [], open_fds = [0, 1, 2], trace = []\<rparr>"

text \<open>
  A libdw whose lookups all succeed: the attribute an operation refers to is the given
  one with the next value pointer, and every expression is one \<open>DW_OP_nop\<close>. Every
  attribute has the location list \<open>ex_loclist\<close>, read from base 0: the range from 1
  to 2, then the base address \<open>0x100\<close> with the ranges from 0 to \<open>0x10\<close> and from
  8 to \<open>0x18\<close>, which overlap. So no range covers address 0, one covers address 1,
  and two cover address \<open>0x108\<close>. No call-frame table knows any frame.
\<close>

definition ex_attr :: dwarf_attribute where
  "ex_attr = \<lparr>code = 0x02, form = 0x18, valp = 0, attr_cu = 0\<rparr>"

definition ex_op :: "8 word \<Rightarrow> 64 word \<Rightarrow> dwarf_op" where
  "ex_op a n = \<lparr>atom = a, number = n, number2 = 0, offset = 0\<rparr>"

definition ex_loclist :: "loc_entry list" where
  "ex_loclist =
     [Range 1 2 [ex_op DW_OP_nop 0], BaseAddress 0x100,
      Range 0 0x10 [ex_op DW_OP_nop 0], Range 8 0x18 [ex_op DW_OP_nop 0]]"

definition ex_libdw :: libdw where
  "ex_libdw =
     \<lparr>dwarf_getlocation_attr = (\<lambda>attr expr. map_option (\<lambda>a. a\<lparr>valp := Suc (valp a)\<rparr>) attr),
      dwarf_getlocation_die = (\<lambda>attr expr. Some 7),
      dwarf_getlocation = (\<lambda>a. Some [ex_op DW_OP_nop 0]),
      dwarf_getlocation_addr = (\<lambda>a addr maxlocs. single_shot_lookup 0 ex_loclist addr),
      dwarf_getlocation_implicit_value = (\<lambda>attr expr. Some [0xde, 0xad]),
      dwarf_getlocation_implicit_pointer =
        (\<lambda>attr expr. map_option (\<lambda>a. a\<lparr>valp := Suc (valp a)\<rparr>) attr),
      dwarf_formblock = (\<lambda>a. if valp a = 1 then Some [0xde, 0xad] else Some [0xde, 0xaf]),
      dwarf_formaddr = (\<lambda>a. None),
      dwarf_formudata = (\<lambda>a. None),
      dwarf_dieoffset = (\<lambda>d. 0x2d),
      dwarf_cuoffset = (\<lambda>d. 0x22),
      dwarf_tag = (\<lambda>d. 0x34),
      dwarf_diename = (\<lambda>d. Some ''v''),
      dwarf_attr_die = (\<lambda>d n. None),
      dwarf_hasattr = (\<lambda>d n. n = DW_AT_frame_base \<and> d = 3),
      dwarf_cfi_addrframe = (\<lambda>cfi addr. None),
      dwarf_frame_cfa = (\<lambda>f. None),
      known_DW_OP = [(0x91, ''fbreg''), (0x96, ''nop''), (0x99, ''call4''),
                     (0x9c, ''call_frame_cfa''), (0x9e, ''implicit_value''),
                     (0xa0, ''implicit_pointer''), (0xfd, ''GNU_variable_value'')],
      known_DW_ATE = []\<rparr>"

definition ex_globals :: globals where
  "ex_globals =
     \<lparr>cfi_debug = None, cfi_debug_bias = 0, cfi_eh = None, cfi_eh_bias = 0,
      is_ET_REL = False, is_debug = False, has_frame_base = True\<rparr>"

text \<open>
  A chain of DIE calls: the expression of the attribute with value pointer \<open>j\<close> is one
  \<open>DW_OP_call4\<close> while \<open>j < k\<close>, and one \<open>DW_OP_nop\<close> from \<open>k\<close> on. Printing
  the first of them from depth 0 makes \<open>k\<close> nested calls before it reaches the
  \<open>DW_OP_nop\<close>, which is printed at depth \<open>k\<close>.
\<close>

definition chain_attr :: "nat \<Rightarrow> dwarf_attribute" where
  "chain_attr j = ex_attr\<lparr>valp := j\<rparr>"

definition chain_op :: "nat \<Rightarrow> nat \<Rightarrow> dwarf_op" where
  "chain_op k j = ex_op (if j < k then DW_OP_call4 else DW_OP_nop) 0"

definition chain_libdw :: "nat \<Rightarrow> libdw" where
  "chain_libdw k = ex_libdw\<lparr>dwarf_getlocation := (\<lambda>a. Some [chain_op k (valp a)])\<rparr>"

section \<open>Properties of split-unit resolution\<close>

subsection \<open>What each operation leaves unchanged\<close>

lemma log_simps [simp]:
  "cus (log e w) = cus w" "dwarfs (log e w) = dwarfs w"
  "open_fds (log e w) = open_fds w" "trace (log e w) = trace w @ [e]"
  by (simp_all add: log_def)

lemma set_split_simps [simp]:
  "dwarfs (set_split r l w) = dwarfs w" "open_fds (set_split r l w) = open_fds w"
  "trace (set_split r l w) = trace w" "length (cus (set_split r l w)) = length (cus w)"
  by (simp_all add: set_split_def)

lemma dwarf_end_simps [simp]:
  "cus (dwarf_end d w) = cus w" "open_fds (dwarf_end d w) = open_fds w"
  "trace (dwarf_end d w) = trace w @ [DwarfEnd d]"
  by (simp_all add: dwarf_end_def)

lemma elf_cntl_FDDONE_simps [simp]:
  "cus (elf_cntl_FDDONE d w) = cus w" "open_fds (elf_cntl_FDDONE d w) = open_fds w"
  "trace (elf_cntl_FDDONE d w) = trace w @ [FdDone d]"
  by (simp_all add: elf_cntl_FDDONE_def)

lemma sys_close_simps [simp]:
  "cus (sys_close fd w) = cus w" "dwarfs (sys_close fd w) = dwarfs w"
  "open_fds (sys_close fd w) = removeAll fd (open_fds w)"
  "trace (sys_close fd w) = trace w @ [Close fd]"
  by (simp_all add: sys_close_def)

lemma split_set_split_same:
  "r < length (cus w) \<Longrightarrow> split (cus (set_split r l w) ! r) = l"
  by (simp add: set_split_def)

lemma split_set_split_other:
  "r \<noteq> s \<Longrightarrow> cus (set_split s l w) ! r = cus w ! r"
  by (simp add: set_split_def)

lemma fold_max_ge: "x \<in> set fds \<Longrightarrow> x \<le> fold max fds (a::nat)"
proof (induction fds arbitrary: a)
  case Nil then show ?case by simp
next
  case (Cons y ys)
  have mono: "\<And>b. b \<le> fold max ys b"
  proof -
    fix b show "b \<le> fold max ys (b::nat)"
      by (induction ys arbitrary: b) (auto intro: order_trans [OF max.cobounded2])
  qed
  from Cons show ?case
    using mono [of "max y a"] by auto
qed

lemma fresh_fd_fresh: "fresh_fd fds \<notin> set fds"
  using fold_max_ge [of "fresh_fd fds" fds 0] by (auto simp: fresh_fd_def)

subsection \<open>The scan\<close>

lemma scan_units_open_fds:
  "scan_units r d us w = Inr w' \<Longrightarrow> open_fds w' = open_fds w"
  by (induction us arbitrary: w) (auto simp: Let_def split: if_splits)

lemma scan_units_length_cus:
  "scan_units r d us w = Inr w' \<Longrightarrow> length (cus w') = length (cus w)"
  by (induction us arbitrary: w) (auto simp: Let_def split: if_splits)

text \<open>
  A scan that returns leaves the skeleton unresolved, or linked to a unit that is linked
  back to it.
\<close>

lemma scan_units_link:
  assumes "scan_units r d us w = Inr w'"
    and "r < length (cus w)" and "\<forall>s\<in>set us. s < length (cus w)"
    and "split (cus w ! r) = Unresolved"
  shows "split (cus w' ! r) = Unresolved \<or>
         (\<exists>s. split (cus w' ! r) = Linked s \<and> split (cus w' ! s) = Linked r)"
  using assms
proof (induction us arbitrary: w)
  case Nil
  then show ?case by (auto split: if_splits)
next
  case (Cons s us)
  from Cons.prems(1) have live: "ended (dwarfs w ! d) = 0"
    by (auto split: if_splits)
  show ?case
  proof (cases "unit_matches (cus w ! r) (cus w ! s)")
    case True
    with Cons.prems live
    have w': "w' = elf_cntl_FDDONE d (set_split s (Linked r)
                     (set_split r (Linked s) (log (GetUnits d (Some s)) w)))"
      by simp
    from Cons.prems have s: "s < length (cus w)" by simp
    have "split (cus w' ! r) = Linked s \<and> split (cus w' ! s) = Linked r"
      using Cons.prems(2) s
      by (cases "r = s") (simp_all add: w' split_set_split_same split_set_split_other)
    then show ?thesis by blast
  next
    case False
    with Cons.prems live
    have "scan_units r d us (dwarf_end d (log (GetUnits d (Some s)) w)) = Inr w'"
      by simp
    from Cons.IH [OF this] Cons.prems show ?thesis by simp
  qed
qed

text \<open>
  The defect of lines 99 and 100: in a live container, a first unit that does not match
  is followed by \<open>dwarf_end\<close>, and the next turn of the loop passes the freed
  container to \<open>dwarf_get_units\<close>.
\<close>

lemma scan_units_rejects_then_faults:
  assumes "d < length (dwarfs w)" and "ended (dwarfs w ! d) = 0"
    and "split (cus w ! r) = Unresolved"
    and "\<not> unit_matches (cus w ! r) (cus w ! s)"
  shows "scan_units r d (s # us) w =
           Inl (UseAfterFree d (trace w @ [GetUnits d (Some s), DwarfEnd d]) (open_fds w))"
proof -
  let ?w = "dwarf_end d (log (GetUnits d (Some s)) w)"
  have "ended (dwarfs ?w ! d) \<noteq> 0"
    using assms(1) by (simp add: dwarf_end_def log_def)
  then have "scan_units r d us ?w = Inl (UseAfterFree d (trace ?w) (open_fds ?w))"
    by (cases us) simp_all
  with assms show ?thesis by simp
qed

subsection \<open>Opening and parsing\<close>

lemma sys_open_fds:
  "sys_open E path w = (Some fd, w1) \<Longrightarrow>
     open_fds w1 = fd # open_fds w \<and> fd \<notin> set (open_fds w) \<and> cus w1 = cus w"
  "sys_open E path w = (None, w1) \<Longrightarrow> open_fds w1 = open_fds w \<and> cus w1 = cus w"
  using fresh_fd_fresh [of "open_fds w"]
  by (auto simp: sys_open_def Let_def split: if_splits)

lemma dwarf_begin_None:
  "dwarf_begin E path fd w = (None, w1) \<Longrightarrow> open_fds w1 = open_fds w \<and> cus w1 = cus w"
  by (auto simp: dwarf_begin_def Let_def split: option.splits)

lemma dwarf_begin_Some:
  "dwarf_begin E path fd w = (Some d, w1) \<Longrightarrow>
     \<exists>hs. parse E path = Some hs \<and> open_fds w1 = open_fds w \<and> cus w1 = cus w @ map new_unit hs
        \<and> d = length (dwarfs w)
        \<and> units (dwarfs w1 ! d) = [length (cus w) ..< length (cus w) + length hs]"
  by (auto simp: dwarf_begin_def Let_def split: option.splits)

lemma try_dwo_open_fds: "try_dwo E w r = Inr w' \<Longrightarrow> open_fds w' = open_fds w"
  by (auto simp: try_dwo_def split: option.splits prod.splits sum.splits
           dest!: sys_open_fds dwarf_begin_None dwarf_begin_Some scan_units_open_fds)

lemma try_dwo_length_cus: "try_dwo E w r = Inr w' \<Longrightarrow> length (cus w) \<le> length (cus w')"
  by (auto simp: try_dwo_def split: option.splits prod.splits sum.splits
           dest!: sys_open_fds dwarf_begin_None dwarf_begin_Some scan_units_length_cus)

lemma try_dwo_link:
  assumes t: "try_dwo E w r = Inr w'"
    and r: "r < length (cus w)" and u: "split (cus w ! r) = Unresolved"
  shows "split (cus w' ! r) = Unresolved \<or>
         (\<exists>s. split (cus w' ! r) = Linked s \<and> split (cus w' ! s) = Linked r)"
proof (cases "find_dwo_path E (cus w ! r)")
  case None
  with t u show ?thesis by (simp add: try_dwo_def)
next
  case (Some path)
  show ?thesis
  proof (cases "sys_open E path w")
    case (Pair ofd w1)
    show ?thesis
    proof (cases ofd)
      case None
      with Pair Some t u sys_open_fds(2) [of E path w w1] show ?thesis
        by (auto simp: try_dwo_def)
    next
      case fd: (Some fd)
      with Pair have c1: "cus w1 = cus w"
        using sys_open_fds(1) [of E path w fd w1] by simp
      show ?thesis
      proof (cases "dwarf_begin E path fd w1")
        case b: (Pair od w2)
        show ?thesis
        proof (cases od)
          case None
          with b have "cus w2 = cus w"
            using dwarf_begin_None [of E path fd w1 w2] c1 by simp
          with None b fd Pair Some t u show ?thesis
            by (auto simp: try_dwo_def)
        next
          case d: (Some d)
          with b obtain hs where c2: "cus w2 = cus w @ map new_unit hs"
            and us: "units (dwarfs w2 ! d) = [length (cus w) ..< length (cus w) + length hs]"
            using dwarf_begin_Some [of E path fd w1 d w2] c1 by auto
          let ?us = "[length (cus w) ..< length (cus w) + length hs]"
          have r2: "r < length (cus w2)" and u2: "split (cus w2 ! r) = Unresolved"
            using r u c2 by (simp_all add: nth_append)
          have valid: "\<forall>s\<in>set ?us. s < length (cus w2)"
            using c2 by simp
          from t Some Pair fd b d us obtain w3
            where sc: "scan_units r d ?us w2 = Inr w3" and w': "w' = sys_close fd w3"
            by (auto simp: try_dwo_def split: sum.splits)
          from scan_units_link [OF sc r2 valid u2] show ?thesis
            by (simp add: w')
        qed
      qed
    qed
  qed
qed

lemma find_split_unit_resolved:
  assumes "find_split_unit E w r = Inr (l, w')" and "r < length (cus w)"
  shows "split (cus w' ! r) \<noteq> Unresolved" and "l = split (cus w' ! r)"
proof -
  have "split (cus w' ! r) \<noteq> Unresolved \<and> l = split (cus w' ! r)"
  proof (cases "split (cus w ! r) \<noteq> Unresolved")
    case True
    with assms show ?thesis by (auto simp: find_split_unit_def)
  next
    case False
    with assms(1) obtain w1
      where w1: "(if unit_type (cus w ! r) = DW_UT_skeleton then try_dwo E w r else Inr w) = Inr w1"
        and res: "w' = (if split (cus w1 ! r) = Unresolved then set_split r NoneFound w1 else w1)"
        and l: "l = split (cus w' ! r)"
      by (auto simp: find_split_unit_def Let_def split: sum.splits)
    from w1 assms(2) have "r < length (cus w1)"
      using try_dwo_length_cus [of E w r w1] by (auto split: if_splits)
    with res l show ?thesis
      by (auto simp: split_set_split_same split: if_splits)
  qed
  then show "split (cus w' ! r) \<noteq> Unresolved" and "l = split (cus w' ! r)" by simp_all
qed

lemma find_split_unit_open_fds:
  "find_split_unit E w r = Inr (l, w') \<Longrightarrow> open_fds w' = open_fds w"
  by (auto simp: find_split_unit_def Let_def split: if_splits sum.splits
           dest: try_dwo_open_fds)

subsection \<open>The concrete inputs\<close>

lemmas ex_split_defs =
  find_split_unit_def ex_env_def ex_world_def skeleton_unit_def try_dwo_def find_dwo_path_def
  dwarf_attr_def dwarf_formstring_def DW_AT_comp_dir_def DW_AT_dwo_name_def DW_AT_GNU_dwo_name_def
  sys_open_def sys_close_def fresh_fd_def dwarf_begin_def Let_def new_unit_def unit_matches_def
  DW_UT_skeleton_def DW_UT_split_compile_def DW_UT_split_type_def set_split_def log_def
  elf_cntl_FDDONE_def dwarf_end_def upt_rec

lemma ex_run_matched:
  "\<exists>w'. find_split_unit ex_env ex_world 3 = Inr (Linked 7, w') \<and> open_fds w' = [0, 1, 2] \<and>
        trace w' = [Open ''/x/d.dwo'' (Some 3), DwarfBegin 3 (Some 0), GetUnits 0 (Some 7),
                    FdDone 0, Close 3] \<and>
        split (cus w' ! 3) = Linked 7 \<and> split (cus w' ! 7) = Linked 3"
  by (simp add: ex_split_defs)

subsection \<open>Discarding the container\<close>

text \<open>
  C1. A scan that ends without a match should discard the opened container once, after
  the scan, and a container in which a match was found should be kept. The call of
  \<open>dwarf_end\<close> is inside the loop (lines 99 and 100), so it runs after every unit
  that does not match and never when the loop body does not run. Unit 2 of
  \<open>ex_world\<close>: the container is discarded after its first unit, while the scan is
  going on, and the next \<open>dwarf_get_units\<close> is given the freed container. Unit 1:
  the container has no unit, the scan ends without a match, the link becomes
  \<open>NoneFound\<close>, and the container is never discarded (its count is still 0 and its
  \<open>Elf\<close> handle still holds the descriptor, which is closed).
\<close>

theorem discard_inside_loop:
  "find_split_unit ex_env ex_world 2 =
     Inl (UseAfterFree 0 [Open ''/x/c.dwo'' (Some 3), DwarfBegin 3 (Some 0),
                          GetUnits 0 (Some 7), DwarfEnd 0] [3, 0, 1, 2]) \<and>
   find_split_unit ex_env ex_world 1 =
     Inr (NoneFound,
          (set_split 1 NoneFound ex_world)
            \<lparr>dwarfs := [\<lparr>units = [], fildes = Some 3, ended = 0\<rparr>],
             trace := [Open ''/x/b.dwo'' (Some 3), DwarfBegin 3 (Some 0), GetUnits 0 None,
                       Close 3]\<rparr>)"
  by (simp add: ex_split_defs)

subsection \<open>Resolving once\<close>

text \<open>
  C2. Resolution is memoized. A unit whose link is not \<open>Unresolved\<close> is answered from
  the link, and the world (unit store, containers, open descriptors, trace of calls to
  the outside) is returned as it was. When a first call on a valid unit returns, the link
  is not \<open>Unresolved\<close> any more, so a second call returns the same link and changes
  nothing.
\<close>

theorem resolve_once:
  "(split (cus w ! r) \<noteq> Unresolved \<longrightarrow> find_split_unit E w r = Inr (split (cus w ! r), w)) \<and>
   (r < length (cus w) \<and> find_split_unit E w r = Inr (l, w') \<longrightarrow>
      find_split_unit E w' r = Inr (l, w'))"
proof (intro conjI impI)
  assume "split (cus w ! r) \<noteq> Unresolved"
  then show "find_split_unit E w r = Inr (split (cus w ! r), w)"
    by (simp add: find_split_unit_def)
next
  assume a: "r < length (cus w) \<and> find_split_unit E w r = Inr (l, w')"
  then have "split (cus w' ! r) \<noteq> Unresolved" and "l = split (cus w' ! r)"
    using find_split_unit_resolved [of E w r l w'] by simp_all
  then show "find_split_unit E w' r = Inr (l, w')"
    by (simp add: find_split_unit_def)
qed

theorem resolve_once_witness:
  "find_split_unit ex_env ex_world 4 = Inr (NoneFound, ex_world) \<and>
   (\<exists>w'. find_split_unit ex_env ex_world 3 = Inr (Linked 7, w') \<and>
         find_split_unit ex_env w' 3 = Inr (Linked 7, w'))"
proof -
  have a: "split (cus ex_world ! 4) \<noteq> Unresolved" "split (cus ex_world ! 4) = NoneFound"
    by (simp_all add: ex_world_def skeleton_unit_def)
  have b: "3 < length (cus ex_world)"
    by (simp add: ex_world_def)
  from ex_run_matched obtain w' where c: "find_split_unit ex_env ex_world 3 = Inr (Linked 7, w')"
    by blast
  show ?thesis
    using resolve_once [of ex_world 4 ex_env] resolve_once [of ex_world 3 ex_env "Linked 7" w']
          a b c
    by auto
qed

subsection \<open>The descriptor\<close>

text \<open>
  \<open>close (split_fd)\<close> (line 106) follows the parse and the scan, so a call that
  returns leaves the open descriptors as they were, and so does a sequence of calls that
  returns. On a match the descriptor is first detached from the container, which is
  kept, and then closed.
\<close>

lemma returning_call_restores_descriptors:
  "(find_split_unit E w r = Inr (l, w') \<longrightarrow> open_fds w' = open_fds w) \<and>
   (resolve_all E rs w = Inr w'' \<longrightarrow> open_fds w'' = open_fds w)"
proof
  show "find_split_unit E w r = Inr (l, w') \<longrightarrow> open_fds w' = open_fds w"
    by (simp add: find_split_unit_open_fds)
  show "resolve_all E rs w = Inr w'' \<longrightarrow> open_fds w'' = open_fds w"
  proof (induction rs arbitrary: w)
    case Nil
    then show ?case by simp
  next
    case (Cons r rs)
    show ?case
    proof
      assume "resolve_all E (r # rs) w = Inr w''"
      then obtain l w1 where 1: "find_split_unit E w r = Inr (l, w1)"
        and 2: "resolve_all E rs w1 = Inr w''"
        by (auto split: sum.splits)
      from Cons.IH [of w1] 2 find_split_unit_open_fds [OF 1]
      show "open_fds w'' = open_fds w" by simp
    qed
  qed
qed

lemma match_detaches_then_closes:
  assumes "d < length (dwarfs w)" and "ended (dwarfs w ! d) = 0"
    and "unit_matches (cus w ! r) (cus w ! s)"
  shows "\<exists>w'. scan_units r d (s # us) w = Inr w' \<and> fildes (dwarfs w' ! d) = None \<and>
              ended (dwarfs w' ! d) = 0 \<and>
              trace w' = trace w @ [GetUnits d (Some s), FdDone d]"
  using assms by (simp add: elf_cntl_FDDONE_def)

text \<open>
  A scan that rejects a unit does not get to the \<open>close\<close>. When the first unit of the
  companion file does not match, the call ends in the fault, and the descriptor it opened
  is among the open ones at that point.
\<close>

lemma rejected_unit_leaves_descriptor_open:
  assumes r: "r < length (cus w)" and u: "split (cus w ! r) = Unresolved"
    and sk: "unit_type (cus w ! r) = DW_UT_skeleton"
    and p: "find_dwo_path E (cus w ! r) = Some path"
    and o: "can_open E path" and hs: "parse E path = Some (h # hs)"
    and m: "\<not> (fst h = DW_UT_split_compile \<and> snd h = unit_id8 (cus w ! r))"
  shows "find_split_unit E w r =
           Inl (UseAfterFree (length (dwarfs w))
                  (trace w @ [Open path (Some (fresh_fd (open_fds w))),
                              DwarfBegin (fresh_fd (open_fds w)) (Some (length (dwarfs w))),
                              GetUnits (length (dwarfs w)) (Some (length (cus w))),
                              DwarfEnd (length (dwarfs w))])
                  (fresh_fd (open_fds w) # open_fds w))"
proof -
  let ?fd = "fresh_fd (open_fds w)"
  let ?d = "length (dwarfs w)"
  let ?n = "length (cus w)"
  let ?w1 = "log (Open path (Some ?fd)) (w\<lparr>open_fds := ?fd # open_fds w\<rparr>)"
  let ?w2 = "log (DwarfBegin ?fd (Some ?d))
               (?w1\<lparr>cus := cus ?w1 @ map new_unit (h # hs),
                    dwarfs := dwarfs ?w1 @ [\<lparr>units = [?n ..< ?n + length (h # hs)],
                                             fildes = Some ?fd, ended = 0\<rparr>]\<rparr>)"
  have us: "[?n ..< ?n + length (h # hs)] = ?n # [Suc ?n ..< ?n + length (h # hs)]"
    by (simp add: upt_rec)
  have c: "cus ?w2 ! r = cus w ! r" "cus ?w2 ! ?n = new_unit h"
    using r by (simp_all add: nth_append)
  have nm: "\<not> unit_matches (cus ?w2 ! r) (cus ?w2 ! ?n)"
    unfolding c using m by (auto simp: unit_matches_def new_unit_def)
  have sc: "scan_units r ?d [?n ..< ?n + length (h # hs)] ?w2 =
              Inl (UseAfterFree ?d (trace ?w2 @ [GetUnits ?d (Some ?n), DwarfEnd ?d])
                     (open_fds ?w2))"
    unfolding us
    by (rule scan_units_rejects_then_faults) (use nm u c in simp_all)
  have t: "try_dwo E w r =
             (case scan_units r ?d [?n ..< ?n + length (h # hs)] ?w2 of
                Inl f \<Rightarrow> Inl f
              | Inr w3 \<Rightarrow> Inr (sys_close ?fd w3))"
    using p o hs
    by (simp add: try_dwo_def sys_open_def dwarf_begin_def Let_def del: scan_units.simps)
  have "try_dwo E w r =
          Inl (UseAfterFree ?d (trace ?w2 @ [GetUnits ?d (Some ?n), DwarfEnd ?d]) (open_fds ?w2))"
    unfolding t sc by simp
  then show ?thesis
    using u sk by (simp add: find_split_unit_def)
qed

text \<open>
  C4. The descriptor opened for the companion file should be closed on every path,
  matched, unmatched or unparsable, so that the open descriptors after any number of
  calls are those before them. In \<open>ex_world\<close> descriptors 0, 1 and 2 are open.
  Resolving unit 3 (a match) and unit 1 (a file without unit) opens and closes
  descriptor 3 each time. Resolving unit 2 then scans a file whose units do not match:
  the first is rejected, the container is freed inside the loop (lines 99 and 100) and
  handed to \<open>dwarf_get_units\<close> again, and the run ends there, before line 106, with
  descriptor 3 still open.
\<close>

theorem descriptor_open_at_fault:
  "open_fds ex_world = [0, 1, 2] \<and>
   resolve_all ex_env [3, 1, 2] ex_world =
     Inl (UseAfterFree 2
            [Open ''/x/d.dwo'' (Some 3), DwarfBegin 3 (Some 0), GetUnits 0 (Some 7), FdDone 0,
             Close 3,
             Open ''/x/b.dwo'' (Some 3), DwarfBegin 3 (Some 1), GetUnits 1 None, Close 3,
             Open ''/x/c.dwo'' (Some 3), DwarfBegin 3 (Some 2), GetUnits 2 (Some 8),
             DwarfEnd 2]
            [3, 0, 1, 2])"
  by (simp add: ex_split_defs)

subsection \<open>Which unit is accepted\<close>

text \<open>
  C5. The scan should accept the first unit, in header order, whose type is
  \<open>DW_UT_split_compile\<close> and whose id is the skeleton's, and a unit before it that
  differs should not end the scan. Unit 0 of \<open>ex_world\<close> names a file whose first unit
  is a type unit and whose second unit matches. The type unit is rejected, the container
  is freed in the same turn of the loop (lines 99 and 100), and the scan goes on with the
  freed container: the matching unit is never reached.
\<close>

theorem mismatch_before_match:
  "find_split_unit ex_env ex_world 0 =
     Inl (UseAfterFree 0 [Open ''/x/a.dwo'' (Some 3), DwarfBegin 3 (Some 0),
                          GetUnits 0 (Some 7), DwarfEnd 0] [3, 0, 1, 2])"
  by (simp add: ex_split_defs)

subsection \<open>Symmetry of the link\<close>

text \<open>
  C6. When a call resolves an unresolved unit \<open>r\<close> to a split unit \<open>s\<close>, the link of
  \<open>s\<close> points back to \<open>r\<close> in the world the call returns.
\<close>

theorem link_symmetric:
  assumes "r < length (cus w)" and "split (cus w ! r) = Unresolved"
    and "find_split_unit E w r = Inr (Linked s, w')"
  shows "split (cus w' ! s) = Linked r \<and> split (cus w' ! r) = Linked s"
proof -
  from assms(2,3) obtain w1
    where w1: "(if unit_type (cus w ! r) = DW_UT_skeleton then try_dwo E w r else Inr w) = Inr w1"
      and w': "w' = (if split (cus w1 ! r) = Unresolved then set_split r NoneFound w1 else w1)"
      and l: "Linked s = split (cus w' ! r)"
    by (auto simp: find_split_unit_def Let_def split: sum.splits)
  have len: "r < length (cus w1)"
    using w1 assms(1) try_dwo_length_cus [of E w r w1] by (auto split: if_splits)
  have "split (cus w1 ! r) = Unresolved \<or>
        (\<exists>t. split (cus w1 ! r) = Linked t \<and> split (cus w1 ! t) = Linked r)"
    using w1 assms(1,2) try_dwo_link [of E w r w1] by (auto split: if_splits)
  then show ?thesis
  proof
    assume "split (cus w1 ! r) = Unresolved"
    with w' l len show ?thesis
      by (simp add: split_set_split_same)
  next
    assume "\<exists>t. split (cus w1 ! r) = Linked t \<and> split (cus w1 ! t) = Linked r"
    with w' l show ?thesis by auto
  qed
qed

theorem link_symmetric_witness:
  "\<exists>w'. find_split_unit ex_env ex_world 3 = Inr (Linked 7, w') \<and>
        split (cus w' ! 7) = Linked 3 \<and> split (cus w' ! 3) = Linked 7"
proof -
  have r: "3 < length (cus ex_world)" and u: "split (cus ex_world ! 3) = Unresolved"
    by (simp_all add: ex_world_def skeleton_unit_def)
  obtain w' where m: "find_split_unit ex_env ex_world 3 = Inr (Linked 7, w')"
    using ex_run_matched by blast
  from link_symmetric [OF r u m] m show ?thesis by blast
qed

section \<open>Properties of print\_expr\<close>

subsection \<open>Unfolding the switch\<close>

lemmas DW_OP_defs =
  DW_OP_addr_def DW_OP_deref_def DW_OP_const1u_def DW_OP_const1s_def DW_OP_const2u_def
  DW_OP_const2s_def DW_OP_const4u_def DW_OP_const4s_def DW_OP_const8u_def DW_OP_const8s_def
  DW_OP_constu_def DW_OP_consts_def DW_OP_dup_def DW_OP_drop_def DW_OP_over_def DW_OP_pick_def
  DW_OP_swap_def DW_OP_rot_def DW_OP_xderef_def DW_OP_abs_def DW_OP_and_def DW_OP_div_def
  DW_OP_minus_def DW_OP_mod_def DW_OP_mul_def DW_OP_neg_def DW_OP_not_def DW_OP_or_def
  DW_OP_plus_def DW_OP_plus_uconst_def DW_OP_shl_def DW_OP_shr_def DW_OP_shra_def DW_OP_xor_def
  DW_OP_bra_def DW_OP_eq_def DW_OP_ge_def DW_OP_gt_def DW_OP_le_def DW_OP_lt_def DW_OP_ne_def
  DW_OP_skip_def DW_OP_lit0_def DW_OP_lit31_def DW_OP_reg0_def DW_OP_reg31_def DW_OP_breg0_def
  DW_OP_breg31_def DW_OP_regx_def DW_OP_fbreg_def DW_OP_bregx_def DW_OP_piece_def
  DW_OP_deref_size_def DW_OP_xderef_size_def DW_OP_nop_def DW_OP_push_object_address_def
  DW_OP_call2_def DW_OP_call4_def DW_OP_call_ref_def DW_OP_form_tls_address_def
  DW_OP_call_frame_cfa_def DW_OP_bit_piece_def DW_OP_implicit_value_def DW_OP_stack_value_def
  DW_OP_implicit_pointer_def DW_OP_addrx_def DW_OP_constx_def DW_OP_entry_value_def
  DW_OP_const_type_def DW_OP_regval_type_def DW_OP_deref_type_def DW_OP_xderef_type_def
  DW_OP_convert_def DW_OP_reinterpret_def DW_OP_GNU_push_tls_address_def DW_OP_GNU_uninit_def
  DW_OP_GNU_implicit_pointer_def DW_OP_GNU_entry_value_def DW_OP_GNU_const_type_def
  DW_OP_GNU_regval_type_def DW_OP_GNU_deref_type_def DW_OP_GNU_convert_def
  DW_OP_GNU_reinterpret_def DW_OP_GNU_parameter_ref_def DW_OP_GNU_addr_index_def
  DW_OP_GNU_const_index_def DW_OP_GNU_variable_value_def

lemma op_class_simps:
  "op_class DW_OP_nop = NoArgs"
  "op_class DW_OP_call4 = Call"
  "op_class DW_OP_fbreg = Fbreg"
  "op_class DW_OP_call_frame_cfa = CallFrameCfa"
  "op_class DW_OP_implicit_value = ImplicitValue"
  "op_class DW_OP_implicit_pointer = ImplicitPointer"
  "op_class DW_OP_GNU_implicit_pointer = ImplicitPointer"
  "op_class DW_OP_GNU_variable_value = VariableValue"
  by (simp_all add: op_class_def DW_OP_defs)

lemma seq_simps [simp]:
  "seq (emit os) b = (os @ fst b, snd b)"
  "seq (error m) b = error m"
  "seq (assert True what) b = b"
  "seq (assert False what) b = ([], Some (Assert what))"
  by (simp_all add: seq_def emit_def error_def assert_def)

lemma seq_pair [simp]:
  "seq (os, None) b = (os @ fst b, snd b)"
  "seq (os, Some f) b = (os, Some f)"
  by (simp_all add: seq_def)

lemma snd_seq: "snd (seq a b) = (case snd a of None \<Rightarrow> snd b | Some f \<Rightarrow> Some f)"
  by (simp add: seq_def split: option.splits)

lemma print_expr_too_deep:
  "MAX_DEPTH < depth \<Longrightarrow>
     print_expr L G attr expr addr depth = error ''print_expr recursion depth exceeded''"
  by (simp add: print_expr.simps)

lemma chain_libdw_simps [simp]:
  "dwarf_getlocation_attr (chain_libdw k) (Some (chain_attr j)) e = Some (chain_attr (Suc j))"
  "dwarf_getlocation_die (chain_libdw k) a e = Some 7"
  "dwarf_getlocation (chain_libdw k) (chain_attr j) = Some [chain_op k j]"
  by (simp_all add: chain_libdw_def ex_libdw_def chain_attr_def)

lemma print_expr_Call:
  assumes "depth \<le> MAX_DEPTH" "op_class (atom expr) = Call"
    and "dwarf_getlocation_attr L (Some a) expr = Some call_attr"
    and "dwarf_getlocation_die L (Some a) expr = Some call_die"
    and "dwarf_getlocation L call_attr = Some call_ops"
  shows "print_expr L G (Some a) expr addr depth =
           seq (emit [Str (opname L expr), Text ''(['', Hex (dwarf_dieoffset L call_die),
                      Text '']) ''])
               (print_expr_block L G (Some call_attr) call_ops addr (depth + 1))"
  using assms by (simp add: print_expr.simps)

lemma atom_chain_op: "atom (chain_op k j) = (if j < k then DW_OP_call4 else DW_OP_nop)"
  by (simp add: chain_op_def ex_op_def)

lemma chain_depth:
  assumes "j \<le> k" "j \<le> 65"
  shows "snd (print_expr (chain_libdw k) G (Some (chain_attr j)) (chain_op k j) addr (int j)) =
           (if k \<le> 64 then None else Some (Exit ''print_expr recursion depth exceeded''))"
  using assms
proof (induction "65 - j" arbitrary: j)
  case 0
  then have "j = 65" by simp
  with 0 show ?case
    by (simp add: print_expr_too_deep MAX_DEPTH_def error_def)
next
  case (Suc n)
  then have j: "int j \<le> MAX_DEPTH" by (simp add: MAX_DEPTH_def)
  show ?case
  proof (cases "j < k")
    case False
    with Suc.prems have "j = k" by simp
    with Suc.hyps j show ?thesis
      by (simp add: print_expr.simps atom_chain_op op_class_simps emit_def)
  next
    case True
    have ih: "snd (print_expr (chain_libdw k) G (Some (chain_attr (Suc j))) (chain_op k (Suc j))
                     addr (int (Suc j))) =
              (if k \<le> 64 then None else Some (Exit ''print_expr recursion depth exceeded''))"
      using Suc.hyps True by (intro Suc.hyps(1)) simp_all
    have "snd (print_expr (chain_libdw k) G (Some (chain_attr j)) (chain_op k j) addr (int j)) =
          snd (print_expr_block (chain_libdw k) G (Some (chain_attr (Suc j))) [chain_op k (Suc j)]
                 addr (int j + 1))"
      using True j
      by (subst print_expr_Call [where call_attr = "chain_attr (Suc j)" and call_die = 7
              and call_ops = "[chain_op k (Suc j)]"])
         (simp_all add: atom_chain_op op_class_simps)
    also have "\<dots> = snd (print_expr (chain_libdw k) G (Some (chain_attr (Suc j)))
                         (chain_op k (Suc j)) addr (int (Suc j)))"
      by (simp add: print_expr_block.simps snd_seq emit_def add.commute split: option.splits)
    finally show ?thesis using ih by simp
  qed
qed

lemma opname_ex [simp]:
  "opname ex_libdw (ex_op DW_OP_nop n) = Some ''nop''"
  "opname ex_libdw (ex_op DW_OP_fbreg n) = Some ''fbreg''"
  "opname ex_libdw (ex_op DW_OP_call_frame_cfa n) = Some ''call_frame_cfa''"
  "opname ex_libdw (ex_op DW_OP_implicit_value n) = Some ''implicit_value''"
  "opname ex_libdw (ex_op DW_OP_implicit_pointer n) = Some ''implicit_pointer''"
  "opname ex_libdw (ex_op DW_OP_GNU_variable_value n) = Some ''GNU_variable_value''"
  by (simp_all add: opname_def dwarf_opcode_string_def known_string_def known_size_def
        ex_libdw_def ex_op_def DW_OP_defs)

lemma atom_ex_op [simp]: "atom (ex_op a n) = a" "number (ex_op a n) = n" "number2 (ex_op a n) = 0"
  by (simp_all add: ex_op_def)

subsection \<open>The depth cap\<close>

text \<open>
  C3. The depth of a call of \<open>print_expr\<close> is its \<open>depth\<close> argument: 0 at the top,
  and one more for every DIE call, entry value, implicit pointer, variable value or
  call-frame expression it is nested in. A call at a depth above 64 ends the program with
  the depth message, whatever the operation; a call at depth 64 or less goes on to the
  switch, so an operation without arguments is printed. On the chain of \<open>k\<close> nested DIE
  calls the run from depth 0 succeeds when \<open>k\<close> is at most 64 and ends with the depth
  message from 65 on.
\<close>

theorem depth_cap:
  "(64 < depth \<longrightarrow>
      print_expr L G attr expr addr depth = error ''print_expr recursion depth exceeded'') \<and>
   (depth \<le> 64 \<and> op_class (atom expr) = NoArgs \<longrightarrow>
      print_expr L G attr expr addr depth = emit [Str (opname L expr)]) \<and>
   snd (print_expr (chain_libdw k) G (Some (chain_attr 0)) (chain_op k 0) addr 0) =
     (if k \<le> 64 then None else Some (Exit ''print_expr recursion depth exceeded''))"
proof (intro conjI impI)
  assume "64 < depth"
  then show "print_expr L G attr expr addr depth = error ''print_expr recursion depth exceeded''"
    by (simp add: print_expr_too_deep MAX_DEPTH_def)
next
  assume "depth \<le> 64 \<and> op_class (atom expr) = NoArgs"
  then show "print_expr L G attr expr addr depth = emit [Str (opname L expr)]"
    by (simp add: print_expr.simps MAX_DEPTH_def)
next
  show "snd (print_expr (chain_libdw k) G (Some (chain_attr 0)) (chain_op k 0) addr 0) =
          (if k \<le> 64 then None else Some (Exit ''print_expr recursion depth exceeded''))"
    using chain_depth [of 0 k G addr] by simp
qed

theorem depth_cap_witness:
  "print_expr ex_libdw ex_globals None (ex_op DW_OP_nop 0) 0 65 =
     error ''print_expr recursion depth exceeded'' \<and>
   print_expr ex_libdw ex_globals None (ex_op DW_OP_nop 0) 0 64 = emit [Str (Some ''nop'')] \<and>
   snd (print_expr (chain_libdw 64) ex_globals (Some (chain_attr 0)) (chain_op 64 0) 0 0) = None \<and>
   snd (print_expr (chain_libdw 65) ex_globals (Some (chain_attr 0)) (chain_op 65 0) 0 0) =
     Some (Exit ''print_expr recursion depth exceeded'')"
  using depth_cap [of 65 ex_libdw ex_globals None "ex_op DW_OP_nop 0" 0 64]
        depth_cap [of 64 ex_libdw ex_globals None "ex_op DW_OP_nop 0" 0 65]
  by (simp add: op_class_simps)

subsection \<open>The call-frame address\<close>

text \<open>
  C7, as the code has it. \<open>DW_OP_call_frame_cfa\<close> without an attribute ends the
  program. With one, and no frame for the address in either table: the program ends
  when the file is neither relocatable nor read in debug mode; it prints the placeholder
  \<open>{...}\<close> when the file is relocatable or read in debug mode, provided a table is
  there or the mode is debug. With both tables absent and no debug mode the program ends
  before it looks for a frame, also for a relocatable file.
\<close>

theorem call_frame_cfa_cases:
  assumes "atom expr = DW_OP_call_frame_cfa" and "depth \<le> MAX_DEPTH"
  shows "(attr = None \<longrightarrow> print_expr L G attr expr addr depth = error ''%s used in CFI'') \<and>
         (attr \<noteq> None \<and> find_frame L G addr = None \<and> \<not> is_ET_REL G \<and> \<not> is_debug G \<longrightarrow>
            print_expr L G attr expr addr depth =
              ([Str (opname L expr), Text '' ''],
               Some (Exit (if cfi_eh G = None \<and> cfi_debug G = None
                           then ''DW_OP_call_frame_cfa used but no cfi found.''
                           else ''dwarf_cfi_addrframe 0x%lx: %s'')))) \<and>
         (attr \<noteq> None \<and> find_frame L G addr = None \<and> (is_ET_REL G \<or> is_debug G) \<and>
          (cfi_eh G \<noteq> None \<or> cfi_debug G \<noteq> None \<or> is_debug G) \<longrightarrow>
            print_expr L G attr expr addr depth =
              ([Str (opname L expr), Text '' '', Text ''{...}''], None)) \<and>
         (attr \<noteq> None \<and> cfi_eh G = None \<and> cfi_debug G = None \<and> \<not> is_debug G \<longrightarrow>
            print_expr L G attr expr addr depth =
              ([Str (opname L expr), Text '' ''],
               Some (Exit ''DW_OP_call_frame_cfa used but no cfi found.'')))"
  using assms
  by (auto simp: print_expr.simps op_class_simps emit_def error_def)

lemma find_frame_ex [simp]: "find_frame ex_libdw G addr = None"
  by (simp add: find_frame_def ex_libdw_def)

theorem call_frame_cfa_cases_witness:
  "print_expr ex_libdw ex_globals None (ex_op DW_OP_call_frame_cfa 0) 0 0 =
     error ''%s used in CFI'' \<and>
   print_expr ex_libdw (ex_globals\<lparr>cfi_eh := Some 1\<rparr>) (Some ex_attr)
     (ex_op DW_OP_call_frame_cfa 0) 0 0 =
     ([Str (Some ''call_frame_cfa''), Text '' ''],
      Some (Exit ''dwarf_cfi_addrframe 0x%lx: %s'')) \<and>
   print_expr ex_libdw (ex_globals\<lparr>cfi_eh := Some 1, is_ET_REL := True\<rparr>) (Some ex_attr)
     (ex_op DW_OP_call_frame_cfa 0) 0 0 =
     ([Str (Some ''call_frame_cfa''), Text '' '', Text ''{...}''], None) \<and>
   print_expr ex_libdw (ex_globals\<lparr>is_debug := True\<rparr>) (Some ex_attr)
     (ex_op DW_OP_call_frame_cfa 0) 0 0 =
     ([Str (Some ''call_frame_cfa''), Text '' '', Text ''{...}''], None) \<and>
   print_expr ex_libdw ex_globals (Some ex_attr) (ex_op DW_OP_call_frame_cfa 0) 0 0 =
     ([Str (Some ''call_frame_cfa''), Text '' ''],
      Some (Exit ''DW_OP_call_frame_cfa used but no cfi found.''))"
  using call_frame_cfa_cases [of "ex_op DW_OP_call_frame_cfa 0" 0 None ex_libdw ex_globals 0]
        call_frame_cfa_cases [of "ex_op DW_OP_call_frame_cfa 0" 0 "Some ex_attr" ex_libdw
                                 "ex_globals\<lparr>cfi_eh := Some 1\<rparr>" 0]
        call_frame_cfa_cases [of "ex_op DW_OP_call_frame_cfa 0" 0 "Some ex_attr" ex_libdw
                                 "ex_globals\<lparr>cfi_eh := Some 1, is_ET_REL := True\<rparr>" 0]
        call_frame_cfa_cases [of "ex_op DW_OP_call_frame_cfa 0" 0 "Some ex_attr" ex_libdw
                                 "ex_globals\<lparr>is_debug := True\<rparr>" 0]
        call_frame_cfa_cases [of "ex_op DW_OP_call_frame_cfa 0" 0 "Some ex_attr" ex_libdw
                                 ex_globals 0]
  by (simp add: MAX_DEPTH_def ex_globals_def)

text \<open>
  Without the last case the statement fails, for a relocatable file without any
  call-frame table: the attribute is there, no frame can be found, the mode is the
  relaxed one, and the program ends with an error instead of printing the placeholder.
\<close>

theorem call_frame_cfa_counterexample:
  "Some ex_attr \<noteq> None \<and>
   find_frame ex_libdw (ex_globals\<lparr>is_ET_REL := True\<rparr>) 0 = None \<and>
   is_ET_REL (ex_globals\<lparr>is_ET_REL := True\<rparr>) \<and>
   print_expr ex_libdw (ex_globals\<lparr>is_ET_REL := True\<rparr>) (Some ex_attr)
     (ex_op DW_OP_call_frame_cfa 0) 0 0 =
     ([Str (Some ''call_frame_cfa''), Text '' ''],
      Some (Exit ''DW_OP_call_frame_cfa used but no cfi found.''))"
  by (simp add: print_expr.simps op_class_simps MAX_DEPTH_def ex_globals_def emit_def error_def)

subsection \<open>The implicit value\<close>

lemma implicit_value_bytes_same: "implicit_value_bytes bs bs = (map Hex2 bs, None)"
  by (induction bs) (simp_all add: emit_def)

lemma implicit_value_bytes_differ:
  "length bs = length cs \<Longrightarrow> bs \<noteq> cs \<Longrightarrow>
     \<exists>os. implicit_value_bytes bs cs =
            (os, Some (Assert ''block.data[i] == block_impl.data[i]''))"
proof (induction bs cs rule: list_induct2)
  case Nil
  then show ?case by simp
next
  case (Cons b bs c cs)
  show ?case
  proof (cases "b = c")
    case False
    then show ?thesis by (simp add: emit_def)
  next
    case True
    with Cons obtain os where
      "implicit_value_bytes bs cs = (os, Some (Assert ''block.data[i] == block_impl.data[i]''))"
      by auto
    with True show ?thesis by (simp add: emit_def)
  qed
qed

text \<open>
  C8. For \<open>DW_OP_implicit_value\<close> the block read through the attribute (the raw form)
  and the block given by \<open>dwarf_getlocation_implicit_value\<close> are compared. When the
  operand is the length of the block and the two blocks have the same length and the same
  bytes, the operation is printed with all its bytes. Any disagreement, in the operand,
  in the lengths or in a byte, aborts the program by a failed assertion.
\<close>

theorem implicit_value_cross_check:
  assumes "atom expr = DW_OP_implicit_value" and "depth \<le> MAX_DEPTH"
    and "dwarf_getlocation_attr L attr expr = Some const_attr"
    and "dwarf_formblock L const_attr = Some block"
    and "dwarf_getlocation_implicit_value L attr expr = Some block_impl"
  shows "(unat (number expr) = length block \<and> length block = length block_impl \<and>
          block = block_impl \<longrightarrow>
            print_expr L G attr expr addr depth =
              ([Str (opname L expr), Text ''('', Dec (of_nat (length block)), Text ''){'']
               @ map Hex2 block @ [Text ''}''], None)) \<and>
         (unat (number expr) \<noteq> length block \<or> length block \<noteq> length block_impl \<or>
          block \<noteq> block_impl \<longrightarrow>
            (\<exists>os what. print_expr L G attr expr addr depth = (os, Some (Assert what))))"
proof -
  have unfold: "print_expr L G attr expr addr depth =
      seq (assert (unat (number expr) = length block) ''expr->number == block.length'')
       (seq (assert (length block = length block_impl) ''block.length == block_impl.length'')
        (seq (emit [Str (opname L expr), Text ''('', Dec (of_nat (length block)), Text ''){''])
         (seq (implicit_value_bytes block block_impl) (emit [Text ''}'']))))"
    using assms by (simp add: print_expr.simps op_class_simps print_implicit_value_def)
  show ?thesis
  proof (intro conjI impI)
    assume "unat (number expr) = length block \<and> length block = length block_impl \<and>
            block = block_impl"
    then show "print_expr L G attr expr addr depth =
                 ([Str (opname L expr), Text ''('', Dec (of_nat (length block)), Text ''){'']
                  @ map Hex2 block @ [Text ''}''], None)"
      by (simp add: unfold implicit_value_bytes_same emit_def)
  next
    assume dis: "unat (number expr) \<noteq> length block \<or> length block \<noteq> length block_impl \<or>
                 block \<noteq> block_impl"
    show "\<exists>os what. print_expr L G attr expr addr depth = (os, Some (Assert what))"
    proof (cases "unat (number expr) = length block")
      case False
      then show ?thesis by (simp add: unfold)
    next
      case n: True
      show ?thesis
      proof (cases "length block = length block_impl")
        case False
        with n show ?thesis by (simp add: unfold)
      next
        case l: True
        with n dis have "block \<noteq> block_impl" by simp
        with l obtain os where
          "implicit_value_bytes block block_impl =
             (os, Some (Assert ''block.data[i] == block_impl.data[i]''))"
          using implicit_value_bytes_differ by blast
        with n l show ?thesis by (simp add: unfold emit_def)
      qed
    qed
  qed
qed

theorem implicit_value_cross_check_witness:
  "print_expr ex_libdw ex_globals (Some ex_attr) (ex_op DW_OP_implicit_value 2) 0 0 =
     ([Str (Some ''implicit_value''), Text ''('', Dec 2, Text ''){'', Hex2 0xde, Hex2 0xad,
       Text ''}''], None) \<and>
   (\<exists>os what. print_expr ex_libdw ex_globals (Some ex_attr) (ex_op DW_OP_implicit_value 3) 0 0 =
                (os, Some (Assert what))) \<and>
   (\<exists>os what. print_expr ex_libdw ex_globals (Some (chain_attr 5)) (ex_op DW_OP_implicit_value 2)
                  0 0 = (os, Some (Assert what)))"
proof -
  have l: "dwarf_getlocation_attr ex_libdw (Some ex_attr) e = Some (chain_attr 1)"
    "dwarf_getlocation_attr ex_libdw (Some (chain_attr 5)) e = Some (chain_attr 6)"
    "dwarf_formblock ex_libdw (chain_attr 1) = Some [0xde, 0xad]"
    "dwarf_formblock ex_libdw (chain_attr 6) = Some [0xde, 0xaf]"
    "dwarf_getlocation_implicit_value ex_libdw a e = Some [0xde, 0xad]" for e a
    by (simp_all add: ex_libdw_def chain_attr_def ex_attr_def)
  have d: "(0::int) \<le> MAX_DEPTH" by (simp add: MAX_DEPTH_def)
  show ?thesis
    using implicit_value_cross_check [OF _ d l(1) l(3) l(5),
            of "ex_op DW_OP_implicit_value 2" ex_globals 0]
          implicit_value_cross_check [OF _ d l(1) l(3) l(5),
            of "ex_op DW_OP_implicit_value 3" ex_globals 0]
          implicit_value_cross_check [OF _ d l(2) l(4) l(5),
            of "ex_op DW_OP_implicit_value 2" ex_globals 0]
    by simp
qed

subsection \<open>The location of a referenced DIE\<close>

lemma single_shot_lookup_cases:
  "(covering base es a = [] \<longrightarrow> single_shot_lookup base es a = (0, [])) \<and>
   (covering base es a = [e] \<longrightarrow> single_shot_lookup base es a = (1, e)) \<and>
   (1 < length (covering base es a) \<longrightarrow> single_shot_lookup base es a = (- 1, []))"
  by (auto simp: single_shot_lookup_def split: list.splits)

text \<open>
  C9. \<open>DW_OP_implicit_pointer\<close>, \<open>DW_OP_GNU_implicit_pointer\<close> and
  \<open>DW_OP_GNU_variable_value\<close>, when the attribute of the referenced DIE is not a
  \<open>DW_AT_const_value\<close>, look its location up once, at the current address, asking
  \<open>dwarf_getlocation_addr\<close> for one expression. A count of 0 prints
  \<open><no location>\<close> and the run goes on; a count of 1 prints the expression found,
  one level deeper; every other count, the error reply among them, ends the program.
  When the reply is the single-shot lookup of a location list, that is: no covering
  entry prints \<open><no location>\<close>, exactly one covering entry is printed, and more
  than one covering entry ends the program. \<open>pre\<close> is what the operation has printed
  before the lookup.
\<close>

theorem single_shot_location:
  assumes "depth \<le> MAX_DEPTH" and "attr \<noteq> None"
    and "dwarf_getlocation_die L attr expr = Some impl_die"
    and "((atom expr = DW_OP_implicit_pointer \<or> atom expr = DW_OP_GNU_implicit_pointer) \<and>
          dwarf_getlocation_implicit_pointer L attr expr = Some attrval \<and>
          dwarf_getlocation_attr L attr expr = Some attrval2 \<and>
          code attrval = code attrval2 \<and> form attrval = form attrval2 \<and>
          valp attrval = valp attrval2 \<and>
          pre = [Str (opname L expr), Text ''(['', Hex (dwarf_dieoffset L impl_die),
                 Text ''],'', SDec (sint (number2 expr)), Text '') '']) \<or>
         (atom expr = DW_OP_GNU_variable_value \<and>
          dwarf_getlocation_attr L attr expr = Some attrval \<and>
          pre = [Str (opname L expr), Text ''(['', Hex (dwarf_dieoffset L impl_die),
                 Text '']) ''])"
    and "code attrval \<noteq> DW_AT_const_value"
  shows "(fst (dwarf_getlocation_addr L attrval addr 1) = 0 \<longrightarrow>
            print_expr L G attr expr addr depth = (pre @ [Text ''<no location>''], None)) \<and>
         (fst (dwarf_getlocation_addr L attrval addr 1) = 1 \<longrightarrow>
            print_expr L G attr expr addr depth =
              seq (emit pre)
                (print_expr_block L G (Some attrval)
                   (snd (dwarf_getlocation_addr L attrval addr 1)) addr (depth + 1))) \<and>
         (fst (dwarf_getlocation_addr L attrval addr 1) \<noteq> 0 \<and>
          fst (dwarf_getlocation_addr L attrval addr 1) \<noteq> 1 \<longrightarrow>
            print_expr L G attr expr addr depth =
              (pre, Some (Exit ''dwarf_getlocation_addr attrval at addr 0x%lx, locs (%d): %s''))) \<and>
         (dwarf_getlocation_addr L attrval addr 1 = single_shot_lookup base es addr \<longrightarrow>
            (covering base es addr = [] \<longrightarrow>
               print_expr L G attr expr addr depth = (pre @ [Text ''<no location>''], None)) \<and>
            (\<forall>e. covering base es addr = [e] \<longrightarrow>
               print_expr L G attr expr addr depth =
                 seq (emit pre) (print_expr_block L G (Some attrval) e addr (depth + 1))) \<and>
            (1 < length (covering base es addr) \<longrightarrow>
               print_expr L G attr expr addr depth =
                 (pre,
                  Some (Exit ''dwarf_getlocation_addr attrval at addr 0x%lx, locs (%d): %s''))))"
proof -
  let ?reply = "dwarf_getlocation_addr L attrval addr 1"
  let ?run = "print_expr L G attr expr addr depth"
  let ?err = "(pre, Some (Exit ''dwarf_getlocation_addr attrval at addr 0x%lx, locs (%d): %s''))"
  from assms(2) obtain a where a: "attr = Some a" by auto
  from assms(4) have "op_class (atom expr) = ImplicitPointer \<or>
                      op_class (atom expr) = VariableValue"
    by (auto simp: op_class_simps)
  then have branch:
    "?run = (if fst ?reply = 0 then (pre @ [Text ''<no location>''], None)
             else if fst ?reply = 1
             then seq (emit pre)
                    (print_expr_block L G (Some attrval) (snd ?reply) addr (depth + 1))
             else ?err)"
  proof
    assume c: "op_class (atom expr) = ImplicitPointer"
    then have "atom expr \<noteq> DW_OP_GNU_variable_value"
      by (auto simp: op_class_simps)
    with assms(4) c a assms(1,3,5) show ?thesis
      by (simp add: print_expr.simps emit_def error_def)
  next
    assume c: "op_class (atom expr) = VariableValue"
    then have "atom expr \<noteq> DW_OP_implicit_pointer" "atom expr \<noteq> DW_OP_GNU_implicit_pointer"
      by (auto simp: op_class_simps)
    with assms(4) c a assms(1,3,5) show ?thesis
      by (simp add: print_expr.simps emit_def error_def)
  qed
  have 0: "fst ?reply = 0 \<longrightarrow> ?run = (pre @ [Text ''<no location>''], None)"
    by (simp add: branch)
  have 1: "fst ?reply = 1 \<longrightarrow>
             ?run = seq (emit pre)
                      (print_expr_block L G (Some attrval) (snd ?reply) addr (depth + 1))"
    by (simp add: branch)
  have 2: "fst ?reply \<noteq> 0 \<and> fst ?reply \<noteq> 1 \<longrightarrow> ?run = ?err"
    by (simp add: branch)
  have 3: "?reply = single_shot_lookup base es addr \<longrightarrow>
            (covering base es addr = [] \<longrightarrow> ?run = (pre @ [Text ''<no location>''], None)) \<and>
            (\<forall>e. covering base es addr = [e] \<longrightarrow>
               ?run = seq (emit pre) (print_expr_block L G (Some attrval) e addr (depth + 1))) \<and>
            (1 < length (covering base es addr) \<longrightarrow> ?run = ?err)"
  proof (intro impI conjI allI)
    assume r: "?reply = single_shot_lookup base es addr"
    { assume "covering base es addr = []"
      with r single_shot_lookup_cases [of base es addr] have "fst ?reply = 0" by simp
      with 0 show "?run = (pre @ [Text ''<no location>''], None)" by simp }
    { fix e assume "covering base es addr = [e]"
      with r single_shot_lookup_cases [of base es addr e] have "?reply = (1, e)" by simp
      with 1 show "?run = seq (emit pre) (print_expr_block L G (Some attrval) e addr (depth + 1))"
        by simp }
    { assume "1 < length (covering base es addr)"
      with r single_shot_lookup_cases [of base es addr] have "?reply = (- 1, [])" by simp
      with 2 show "?run = ?err" by simp }
  qed
  from 0 1 2 3 show ?thesis by blast
qed

lemma print_nop_block:
  "depth \<le> MAX_DEPTH \<Longrightarrow>
     print_expr_block ex_libdw G attr [ex_op DW_OP_nop 0] addr depth =
       ([Text ''{'', Str (Some ''nop''), Str (Some []), Text ''}''], None)"
  by (simp add: print_expr_block.simps print_expr.simps op_class_simps emit_def)

lemma covering_ex:
  "covering 0 ex_loclist 0 = []"
  "covering 0 ex_loclist 1 = [[ex_op DW_OP_nop 0]]"
  "covering 0 ex_loclist 0x108 = [[ex_op DW_OP_nop 0], [ex_op DW_OP_nop 0]]"
  by (simp_all add: ex_loclist_def word_le_nat_alt word_less_nat_alt)

lemma getlocation_addr_ex:
  "dwarf_getlocation_addr ex_libdw a addr n = single_shot_lookup 0 ex_loclist addr"
  by (simp add: ex_libdw_def)

theorem single_shot_location_witness:
  "covering 0 ex_loclist 0 = [] \<and>
   print_expr ex_libdw ex_globals (Some ex_attr) (ex_op DW_OP_implicit_pointer 0) 0 0 =
     ([Str (Some ''implicit_pointer''), Text ''(['', Hex 0x2d, Text ''],'', SDec 0, Text '') '',
       Text ''<no location>''], None) \<and>
   covering 0 ex_loclist 1 = [[ex_op DW_OP_nop 0]] \<and>
   print_expr ex_libdw ex_globals (Some ex_attr) (ex_op DW_OP_implicit_pointer 0) 1 0 =
     ([Str (Some ''implicit_pointer''), Text ''(['', Hex 0x2d, Text ''],'', SDec 0, Text '') '',
       Text ''{'', Str (Some ''nop''), Str (Some []), Text ''}''], None) \<and>
   length (covering 0 ex_loclist 0x108) = 2 \<and>
   dwarf_getlocation_addr ex_libdw (chain_attr 1) 0x108 1 = (- 1, []) \<and>
   print_expr ex_libdw ex_globals (Some ex_attr) (ex_op DW_OP_implicit_pointer 0) 0x108 0 =
     ([Str (Some ''implicit_pointer''), Text ''(['', Hex 0x2d, Text ''],'', SDec 0, Text '') ''],
      Some (Exit ''dwarf_getlocation_addr attrval at addr 0x%lx, locs (%d): %s'')) \<and>
   print_expr ex_libdw ex_globals (Some ex_attr) (ex_op DW_OP_GNU_variable_value 0) 0 0 =
     ([Str (Some ''GNU_variable_value''), Text ''(['', Hex 0x2d, Text '']) '',
       Text ''<no location>''], None) \<and>
   print_expr ex_libdw ex_globals (Some ex_attr) (ex_op DW_OP_GNU_variable_value 0) 1 0 =
     ([Str (Some ''GNU_variable_value''), Text ''(['', Hex 0x2d, Text '']) '',
       Text ''{'', Str (Some ''nop''), Str (Some []), Text ''}''], None) \<and>
   print_expr ex_libdw ex_globals (Some ex_attr) (ex_op DW_OP_GNU_variable_value 0) 0x108 0 =
     ([Str (Some ''GNU_variable_value''), Text ''(['', Hex 0x2d, Text '']) ''],
      Some (Exit ''dwarf_getlocation_addr attrval at addr 0x%lx, locs (%d): %s''))"
proof -
  have d: "(0::int) \<le> MAX_DEPTH" "(1::int) \<le> MAX_DEPTH"
    by (simp_all add: MAX_DEPTH_def)
  have a: "Some ex_attr \<noteq> None" by simp
  have die: "dwarf_getlocation_die ex_libdw (Some ex_attr) e = Some 7" for e
    by (simp add: ex_libdw_def)
  have off: "dwarf_dieoffset ex_libdw 7 = 0x2d"
    by (simp add: ex_libdw_def)
  have l: "dwarf_getlocation_implicit_pointer ex_libdw (Some ex_attr) e = Some (chain_attr (Suc 0))"
    "dwarf_getlocation_attr ex_libdw (Some ex_attr) e = Some (chain_attr (Suc 0))" for e
    by (simp_all add: ex_libdw_def chain_attr_def ex_attr_def)
  have c: "code (chain_attr (Suc 0)) \<noteq> DW_AT_const_value"
    by (simp add: chain_attr_def ex_attr_def DW_AT_const_value_def)
  have ip: "((atom (ex_op DW_OP_implicit_pointer 0) = DW_OP_implicit_pointer \<or>
              atom (ex_op DW_OP_implicit_pointer 0) = DW_OP_GNU_implicit_pointer) \<and>
             dwarf_getlocation_implicit_pointer ex_libdw (Some ex_attr)
               (ex_op DW_OP_implicit_pointer 0) = Some (chain_attr (Suc 0)) \<and>
             dwarf_getlocation_attr ex_libdw (Some ex_attr) (ex_op DW_OP_implicit_pointer 0) =
               Some (chain_attr (Suc 0)) \<and>
             code (chain_attr (Suc 0)) = code (chain_attr (Suc 0)) \<and>
             form (chain_attr (Suc 0)) = form (chain_attr (Suc 0)) \<and>
             valp (chain_attr (Suc 0)) = valp (chain_attr (Suc 0)) \<and>
             [Str (Some ''implicit_pointer''), Text ''(['', Hex 0x2d, Text ''],'', SDec 0,
              Text '') ''] =
             [Str (opname ex_libdw (ex_op DW_OP_implicit_pointer 0)), Text ''(['',
              Hex (dwarf_dieoffset ex_libdw 7), Text ''],'',
              SDec (sint (number2 (ex_op DW_OP_implicit_pointer 0))), Text '') '']) \<or>
            (atom (ex_op DW_OP_implicit_pointer 0) = DW_OP_GNU_variable_value \<and>
             dwarf_getlocation_attr ex_libdw (Some ex_attr) (ex_op DW_OP_implicit_pointer 0) =
               Some (chain_attr (Suc 0)) \<and>
             [Str (Some ''implicit_pointer''), Text ''(['', Hex 0x2d, Text ''],'', SDec 0,
              Text '') ''] =
             [Str (opname ex_libdw (ex_op DW_OP_implicit_pointer 0)), Text ''(['',
              Hex (dwarf_dieoffset ex_libdw 7), Text '']) ''])"
    by (simp add: l off)
  have vv: "((atom (ex_op DW_OP_GNU_variable_value 0) = DW_OP_implicit_pointer \<or>
              atom (ex_op DW_OP_GNU_variable_value 0) = DW_OP_GNU_implicit_pointer) \<and>
             dwarf_getlocation_implicit_pointer ex_libdw (Some ex_attr)
               (ex_op DW_OP_GNU_variable_value 0) = Some (chain_attr (Suc 0)) \<and>
             dwarf_getlocation_attr ex_libdw (Some ex_attr) (ex_op DW_OP_GNU_variable_value 0) =
               Some (chain_attr (Suc 0)) \<and>
             code (chain_attr (Suc 0)) = code (chain_attr (Suc 0)) \<and>
             form (chain_attr (Suc 0)) = form (chain_attr (Suc 0)) \<and>
             valp (chain_attr (Suc 0)) = valp (chain_attr (Suc 0)) \<and>
             [Str (Some ''GNU_variable_value''), Text ''(['', Hex 0x2d, Text '']) ''] =
             [Str (opname ex_libdw (ex_op DW_OP_GNU_variable_value 0)), Text ''(['',
              Hex (dwarf_dieoffset ex_libdw 7), Text ''],'',
              SDec (sint (number2 (ex_op DW_OP_GNU_variable_value 0))), Text '') '']) \<or>
            (atom (ex_op DW_OP_GNU_variable_value 0) = DW_OP_GNU_variable_value \<and>
             dwarf_getlocation_attr ex_libdw (Some ex_attr) (ex_op DW_OP_GNU_variable_value 0) =
               Some (chain_attr (Suc 0)) \<and>
             [Str (Some ''GNU_variable_value''), Text ''(['', Hex 0x2d, Text '']) ''] =
             [Str (opname ex_libdw (ex_op DW_OP_GNU_variable_value 0)), Text ''(['',
              Hex (dwarf_dieoffset ex_libdw 7), Text '']) ''])"
    by (simp add: l off)
  show ?thesis
    using single_shot_location [OF d(1) a die ip c, where addr = 0 and G = ex_globals
            and base = 0 and es = ex_loclist]
          single_shot_location [OF d(1) a die ip c, where addr = 1 and G = ex_globals
            and base = 0 and es = ex_loclist]
          single_shot_location [OF d(1) a die ip c, where addr = "0x108" and G = ex_globals
            and base = 0 and es = ex_loclist]
          single_shot_location [OF d(1) a die vv c, where addr = 0 and G = ex_globals
            and base = 0 and es = ex_loclist]
          single_shot_location [OF d(1) a die vv c, where addr = 1 and G = ex_globals
            and base = 0 and es = ex_loclist]
          single_shot_location [OF d(1) a die vv c, where addr = "0x108" and G = ex_globals
            and base = 0 and es = ex_loclist]
    by (simp add: getlocation_addr_ex single_shot_lookup_def covering_ex
          print_nop_block [OF d(2)] emit_def)
qed

subsection \<open>The frame base\<close>

text \<open>
  C10. \<open>DW_OP_fbreg\<close> ends the program when the expression has no attribute (it comes
  from call-frame information) and when no frame base is known; with an attribute and a
  frame base it is printed with its operand read as a signed number. \<open>handle_die\<close>
  takes the frame base as known when the DIE or an outer DIE has a \<open>DW_AT_frame_base\<close>.
\<close>

theorem fbreg_needs_frame_base:
  assumes "atom expr = DW_OP_fbreg" and "depth \<le> MAX_DEPTH"
  shows "(attr \<noteq> None \<and> has_frame_base G \<longrightarrow>
            print_expr L G attr expr addr depth =
              ([Str (opname L expr), Text ''('', SDec (sint (number expr)), Text '')''], None)) \<and>
         (attr = None \<longrightarrow>
            print_expr L G attr expr addr depth = ([], Some (Exit ''%s used in CFI''))) \<and>
         (attr \<noteq> None \<and> \<not> has_frame_base G \<longrightarrow>
            print_expr L G attr expr addr depth =
              ([], Some (Exit ''DW_OP_fbreg used without a frame base''))) \<and>
         has_frame_base (handle_die_frame_base L G die outer) =
           (dwarf_hasattr L die DW_AT_frame_base \<or> outer)"
  using assms
  by (auto simp: print_expr.simps op_class_simps emit_def error_def handle_die_frame_base_def)

lemma hasattr_ex [simp]:
  "dwarf_hasattr ex_libdw d n \<longleftrightarrow> n = DW_AT_frame_base \<and> d = 3"
  by (simp add: ex_libdw_def)

theorem fbreg_needs_frame_base_witness:
  "print_expr ex_libdw ex_globals (Some ex_attr) (ex_op DW_OP_fbreg 0xfffffffffffffff0) 0 0 =
     ([Str (Some ''fbreg''), Text ''('', SDec (- 16), Text '')''], None) \<and>
   print_expr ex_libdw ex_globals None (ex_op DW_OP_fbreg 0xfffffffffffffff0) 0 0 =
     ([], Some (Exit ''%s used in CFI'')) \<and>
   print_expr ex_libdw (handle_die_frame_base ex_libdw ex_globals 4 False) (Some ex_attr)
     (ex_op DW_OP_fbreg 0xfffffffffffffff0) 0 0 =
     ([], Some (Exit ''DW_OP_fbreg used without a frame base'')) \<and>
   has_frame_base (handle_die_frame_base ex_libdw ex_globals 3 False)"
  using fbreg_needs_frame_base [of "ex_op DW_OP_fbreg 0xfffffffffffffff0" 0 "Some ex_attr"
          ex_globals ex_libdw 0 3 False]
        fbreg_needs_frame_base [of "ex_op DW_OP_fbreg 0xfffffffffffffff0" 0 None
          ex_globals ex_libdw 0 3 False]
        fbreg_needs_frame_base [of "ex_op DW_OP_fbreg 0xfffffffffffffff0" 0 "Some ex_attr"
          "handle_die_frame_base ex_libdw ex_globals 4 False" ex_libdw 0 4 False]
  by (simp add: MAX_DEPTH_def ex_globals_def handle_die_frame_base_def)

end
